theory Spec2Isabelle
  imports Complex_Main
begin

section \<open>Double-precision arithmetic\<close>

text \<open>
  The source is TypeScript; its \<^verbatim>\<open>number\<close> is the IEEE 754 double. A finite double is
  modelled as the real number it denotes, and every arithmetic operation of the source as
  the exact operation followed by rounding to the nearest double, a tie going to the even
  significand. The model covers the doubles of normal magnitude: overflow to infinity and
  the subnormal range, both many orders of magnitude away from air-quality values,
  coordinates and the constants of the source, are left out. NaN appears only where the
  source can produce one, as \<open>None\<close>.

  \<open>rhe\<close> rounds a real number to the nearest integer, a tie going to the even one.
\<close>

definition rhe :: "real \<Rightarrow> int" where
  "rhe x =
     (let f = \<lfloor>x\<rfloor>; d = x - of_int f
      in if d < 1 / 2 then f
         else if 1 / 2 < d then f + 1
         else if even f then f else f + 1)"

text \<open>The binary exponent of a non-zero number: \<open>2 powi binexp x \<le> \<bar>x\<bar> < 2 powi (binexp x + 1)\<close>.\<close>

definition binexp :: "real \<Rightarrow> int" where
  "binexp x = \<lfloor>log 2 \<bar>x\<bar>\<rfloor>"

text \<open>
  Rounding to 53 significant bits: the spacing of the doubles around \<open>x\<close> is
  \<open>2 powi (binexp x - 52)\<close>. A decimal literal of the source denotes \<open>rnd\<close> of its
  decimal value.
\<close>

definition rnd :: "real \<Rightarrow> real" where
  "rnd x =
     (if x = 0 then 0
      else of_int (rhe (x / 2 powi (binexp x - 52))) * 2 powi (binexp x - 52))"

text \<open>
  The operators \<^verbatim>\<open>+\<close>, \<^verbatim>\<open>-\<close>, \<^verbatim>\<open>*\<close> and \<^verbatim>\<open>/\<close>. The source never divides by zero: its
  divisors are 2, 4, 6, 100, 180, the length of a non-empty list and the denominator of the
  regression slope, which is positive.
\<close>

definition fadd :: "real \<Rightarrow> real \<Rightarrow> real" where
  "fadd x y = rnd (x + y)"

definition fsub :: "real \<Rightarrow> real \<Rightarrow> real" where
  "fsub x y = rnd (x - y)"

definition fmul :: "real \<Rightarrow> real \<Rightarrow> real" where
  "fmul x y = rnd (x * y)"

definition fdiv :: "real \<Rightarrow> real \<Rightarrow> real" where
  "fdiv x y = rnd (x / y)"

text \<open>
  \<^verbatim>\<open>Math.round(x)\<close> is the integer nearest to \<open>x\<close>, a tie going towards plus infinity;
  the result is an integer and needs no rounding to a double.
\<close>

definition js_round :: "real \<Rightarrow> real" where
  "js_round x = of_int \<lfloor>x + 1 / 2\<rfloor>"

text \<open>
  The library functions are taken to return the double nearest to the exact result. IEEE 754
  requires this of the square root; for \<^verbatim>\<open>Math.pow\<close>, \<^verbatim>\<open>Math.sin\<close>, \<^verbatim>\<open>Math.cos\<close> and
  \<^verbatim>\<open>Math.atan2\<close> the language standard allows an implementation an error in the last bit.
  \<^verbatim>\<open>Math.sqrt\<close> of a negative number is NaN.
\<close>

definition fsqrt :: "real \<Rightarrow> real" where
  "fsqrt x = rnd (sqrt x)"

definition js_sqrt :: "real \<Rightarrow> real option" where
  "js_sqrt x = (if x < 0 then None else Some (fsqrt x))"

definition js_pow :: "real \<Rightarrow> nat \<Rightarrow> real" where
  "js_pow x n = rnd (x ^ n)"

definition js_sin :: "real \<Rightarrow> real" where
  "js_sin x = rnd (sin x)"

definition js_cos :: "real \<Rightarrow> real" where
  "js_cos x = rnd (cos x)"

text \<open>The angle of the point \<open>(x, y)\<close>, in \<open>(-pi, pi]\<close>, and \<^verbatim>\<open>Math.atan2(y, x)\<close>.\<close>

definition atan2 :: "real \<Rightarrow> real \<Rightarrow> real" where
  "atan2 y x =
     (if 0 < x then arctan (y / x)
      else if x < 0 then (if 0 \<le> y then arctan (y / x) + pi else arctan (y / x) - pi)
      else if 0 < y then pi / 2
      else if y < 0 then - (pi / 2)
      else 0)"

definition js_atan2 :: "real \<Rightarrow> real \<Rightarrow> real" where
  "js_atan2 y x = rnd (atan2 y x)"

text \<open>\<^verbatim>\<open>Math.PI\<close> is the double 3.141592653589793, the nearest to \<open>pi\<close>.\<close>

definition js_PI :: real where
  "js_PI = 884279719003555 / 2 ^ 48"

text \<open>
  \<^verbatim>\<open>x === y\<close> on two numbers, either of which may be NaN: NaN is equal to nothing, not even
  to itself.
\<close>

definition js_eq :: "real option \<Rightarrow> real option \<Rightarrow> bool" where
  "js_eq a b = (case a of None \<Rightarrow> False | Some x \<Rightarrow> (case b of None \<Rightarrow> False | Some y \<Rightarrow> x = y))"

section \<open>Array functions of the source\<close>

text \<open>\<^verbatim>\<open>xs.slice(-k)\<close>: the last \<open>k\<close> elements, all of them when there are fewer.\<close>

definition slice_last :: "nat \<Rightarrow> 'a list \<Rightarrow> 'a list" where
  "slice_last k xs = drop (length xs - k) xs"

text \<open>
  \<^verbatim>\<open>xs.reduce((acc, y, i) => f(acc, y, i), init)\<close>: a left fold whose callback also
  receives the index. The third argument is the index of the head of the remaining list.
\<close>

fun reduce_idx :: "('b \<Rightarrow> 'a \<Rightarrow> nat \<Rightarrow> 'b) \<Rightarrow> 'b \<Rightarrow> nat \<Rightarrow> 'a list \<Rightarrow> 'b" where
  "reduce_idx f acc i [] = acc"
| "reduce_idx f acc i (y # ys) = reduce_idx f (f acc y i) (Suc i) ys"

definition reduce :: "('b \<Rightarrow> 'a \<Rightarrow> nat \<Rightarrow> 'b) \<Rightarrow> 'b \<Rightarrow> 'a list \<Rightarrow> 'b" where
  "reduce f init xs = reduce_idx f init 0 xs"

section \<open>Data\<close>

datatype Trend = improving | stable | deteriorating

text \<open>A historical reading; the functions below read its \<^verbatim>\<open>aqi\<close> field only.\<close>

record AQIReading =
  aqi :: real

record WeatherPoint =
  hour :: int
  temperature :: real
  humidity :: real
  windSpeed :: real
  pressure :: real

record WeatherImpact =
  windEffect :: real
  humidityEffect :: real
  pressureEffect :: real
  temperatureEffect :: real
  totalMultiplier :: real

record TrendSummary =
  trend :: Trend
  volatility :: real
  averageAQI :: real

text \<open>The \<^verbatim>\<open>weatherFactors\<close> object of a forecast point.\<close>

record WeatherFactors =
  wf_windEffect :: real
  wf_humidityEffect :: real
  wf_pressureEffect :: real
  wf_temperatureEffect :: real

text \<open>
  A forecast point. Its fields carry the prefix \<open>fc_\<close> because \<^verbatim>\<open>hour\<close> and
  \<^verbatim>\<open>aqi\<close> already name fields of the input records.
\<close>

record ForecastPoint =
  fc_hour :: int
  fc_aqi :: real
  fc_status :: string
  fc_confidence :: real
  fc_weatherFactors :: WeatherFactors
  fc_prediction :: Trend

section \<open>Weather impact\<close>

text \<open>The table \<^verbatim>\<open>WEATHER_IMPACT_COEFFICIENTS\<close>.\<close>

definition coef_windSpeed_low :: real where "coef_windSpeed_low = rnd 1.3"
definition coef_windSpeed_medium :: real where "coef_windSpeed_medium = 1.0"
definition coef_windSpeed_high :: real where "coef_windSpeed_high = rnd 0.7"
definition coef_humidity_low :: real where "coef_humidity_low = rnd 0.9"
definition coef_humidity_medium :: real where "coef_humidity_medium = 1.0"
definition coef_humidity_high :: real where "coef_humidity_high = rnd 1.2"
definition coef_pressure_low :: real where "coef_pressure_low = rnd 1.2"
definition coef_pressure_medium :: real where "coef_pressure_medium = 1.0"
definition coef_pressure_high :: real where "coef_pressure_high = rnd 0.9"
definition coef_temperature_cold :: real where "coef_temperature_cold = rnd 0.9"
definition coef_temperature_mild :: real where "coef_temperature_mild = 1.0"
definition coef_temperature_hot :: real where "coef_temperature_hot = rnd 1.15"

definition calculateWeatherImpact :: "WeatherPoint \<Rightarrow> WeatherImpact" where
  "calculateWeatherImpact weather =
     (let windEffect' =
            (if windSpeed weather < 5 then coef_windSpeed_low
             else if windSpeed weather > 15 then coef_windSpeed_high
             else coef_windSpeed_medium);
          humidityEffect' =
            (if humidity weather < 40 then coef_humidity_low
             else if humidity weather > 70 then coef_humidity_high
             else coef_humidity_medium);
          pressureEffect' =
            (if pressure weather < 1013 then coef_pressure_low
             else if pressure weather > 1023 then coef_pressure_high
             else coef_pressure_medium);
          temperatureEffect' =
            (if temperature weather < 15 then coef_temperature_cold
             else if temperature weather > 25 then coef_temperature_hot
             else coef_temperature_mild);
          totalMultiplier' =
            fdiv (fadd (fadd (fadd windEffect' humidityEffect') pressureEffect') temperatureEffect') 4
      in \<lparr> windEffect = windEffect', humidityEffect = humidityEffect',
           pressureEffect = pressureEffect', temperatureEffect = temperatureEffect',
           totalMultiplier = totalMultiplier' \<rparr>)"

section \<open>AQI classifier\<close>

definition getAQIStatus :: "real \<Rightarrow> string" where
  "getAQIStatus v =
     (if v \<le> 50 then ''Good''
      else if v \<le> 100 then ''Moderate''
      else if v \<le> 150 then ''Unhealthy for Sensitive Groups''
      else if v \<le> 200 then ''Unhealthy''
      else if v \<le> 300 then ''Very Unhealthy''
      else ''Hazardous'')"

section \<open>Trend analyzer\<close>

text \<open>
  The local constants of \<^verbatim>\<open>analyzeAQITrend\<close> past its early return, each as a
  function of the list \<^verbatim>\<open>aqiValues\<close>.
\<close>

definition trend_averageAQI :: "real list \<Rightarrow> real" where
  "trend_averageAQI aqiValues =
     fdiv (reduce (\<lambda>a b i. fadd a b) 0 aqiValues) (real (length aqiValues))"

definition trend_slope :: "real list \<Rightarrow> real" where
  "trend_slope aqiValues =
     (let n = real (length aqiValues);
          xSum = fdiv (fmul n (fsub n 1)) 2;
          ySum = reduce (\<lambda>a b i. fadd a b) 0 aqiValues;
          xySum = reduce (\<lambda>sum y i. fadd sum (fmul (real i) y)) 0 aqiValues;
          xxSum = fdiv (fmul (fmul n (fsub n 1)) (fsub (fmul 2 n) 1)) 6
      in fdiv (fsub (fmul n xySum) (fmul xSum ySum)) (fsub (fmul n xxSum) (fmul xSum xSum)))"

definition trend_variance :: "real list \<Rightarrow> real" where
  "trend_variance aqiValues =
     fdiv (reduce (\<lambda>sum a i. fadd sum (js_pow (fsub a (trend_averageAQI aqiValues)) 2)) 0 aqiValues)
       (real (length aqiValues))"

text \<open>
  \<^verbatim>\<open>historical[0]?.aqi || 50\<close>: the first reading's value, and 50 when there is no
  reading or when that value is falsy, which for a finite number means zero. The variance
  is a rounded sum of rounded squares and never negative, so \<^verbatim>\<open>Math.sqrt\<close> does not
  return NaN there.
\<close>

definition analyzeAQITrend :: "AQIReading list \<Rightarrow> TrendSummary" where
  "analyzeAQITrend historical =
     (if length historical < 2 then
        \<lparr> trend = stable, volatility = 0,
          averageAQI = (case historical of
                          [] \<Rightarrow> 50
                        | r # _ \<Rightarrow> (if aqi r = 0 then 50 else aqi r)) \<rparr>
      else
        let recent = slice_last 6 historical;
            aqiValues = map aqi recent;
            slope = trend_slope aqiValues
        in \<lparr> trend = (if slope < - 0.5 then improving
                      else if slope > 0.5 then deteriorating
                      else stable),
             volatility = fsqrt (trend_variance aqiValues),
             averageAQI = trend_averageAQI aqiValues \<rparr>)"

section \<open>Forecast generator\<close>

text \<open>The locals of the callback that \<^verbatim>\<open>generatePredictiveForecast\<close> maps over the weather points.\<close>

definition forecast_baseAQI :: "TrendSummary \<Rightarrow> TrendSummary option \<Rightarrow> real" where
  "forecast_baseAQI primaryTrend regionalTrend =
     (case regionalTrend of
        None \<Rightarrow> averageAQI primaryTrend
      | Some rt \<Rightarrow>
          (let regionalWeight = rnd 0.3
           in fadd (fmul (averageAQI primaryTrend) (fsub 1 regionalWeight))
                   (fmul (averageAQI rt) regionalWeight)))"

definition forecast_trendModifier :: "TrendSummary \<Rightarrow> real" where
  "forecast_trendModifier primaryTrend =
     (if trend primaryTrend = improving then rnd 0.95
      else if trend primaryTrend = deteriorating then rnd 1.05
      else 1.0)"

definition forecast_confidence :: "real \<Rightarrow> nat \<Rightarrow> real" where
  "forecast_confidence vol index =
     (let confidence =
            max (rnd 0.3) (min (rnd 0.95)
              (fsub (fsub 1 (fdiv vol 100)) (fmul (real index) (rnd 0.05))))
      in fdiv (js_round (fmul confidence 100)) 100)"

definition forecast_point :: "TrendSummary \<Rightarrow> TrendSummary option \<Rightarrow> WeatherPoint \<Rightarrow> nat \<Rightarrow> ForecastPoint" where
  "forecast_point primaryTrend regionalTrend weather index =
     (let weatherImpact = calculateWeatherImpact weather;
          baseAQI = forecast_baseAQI primaryTrend regionalTrend;
          trendModifier = forecast_trendModifier primaryTrend;
          timeMultiplier = js_pow trendModifier (index + 1);
          predictedAQI =
            max 0 (js_round (fmul (fmul baseAQI timeMultiplier) (totalMultiplier weatherImpact)))
      in \<lparr> fc_hour = hour weather,
           fc_aqi = predictedAQI,
           fc_status = getAQIStatus predictedAQI,
           fc_confidence = forecast_confidence (volatility primaryTrend) index,
           fc_weatherFactors =
             \<lparr> wf_windEffect = windEffect weatherImpact,
               wf_humidityEffect = humidityEffect weatherImpact,
               wf_pressureEffect = pressureEffect weatherImpact,
               wf_temperatureEffect = temperatureEffect weatherImpact \<rparr>,
           fc_prediction =
             (if totalMultiplier weatherImpact < rnd 0.95 then improving
              else if totalMultiplier weatherImpact > rnd 1.05 then deteriorating
              else stable) \<rparr>)"

text \<open>
  The optional third parameter is \<open>None\<close> when absent. An array, even an empty one, is
  truthy, so every \<open>Some\<close> is analysed.
\<close>

definition generatePredictiveForecast ::
    "AQIReading list \<Rightarrow> WeatherPoint list \<Rightarrow> AQIReading list option \<Rightarrow> ForecastPoint list" where
  "generatePredictiveForecast currentAQI weatherForecast regionalData =
     (if length currentAQI = 0 \<or> length weatherForecast = 0 then []
      else
        let primaryTrend = analyzeAQITrend currentAQI;
            regionalTrend = (case regionalData of
                               None \<Rightarrow> None
                             | Some rd \<Rightarrow> Some (analyzeAQITrend rd))
        in map (\<lambda>(index, weather). forecast_point primaryTrend regionalTrend weather index)
             (enumerate 0 weatherForecast))"

section \<open>Distance\<close>

text \<open>The local \<^verbatim>\<open>a\<close> of \<^verbatim>\<open>calculateDistance\<close>.\<close>

definition haversine_a :: "real \<Rightarrow> real \<Rightarrow> real \<Rightarrow> real \<Rightarrow> real" where
  "haversine_a lat1 lon1 lat2 lon2 =
     (let dLat = fdiv (fmul (fsub lat2 lat1) js_PI) 180;
          dLon = fdiv (fmul (fsub lon2 lon1) js_PI) 180
      in fadd (fmul (js_sin (fdiv dLat 2)) (js_sin (fdiv dLat 2)))
              (fmul (fmul (fmul (js_cos (fdiv (fmul lat1 js_PI) 180))
                                (js_cos (fdiv (fmul lat2 js_PI) 180)))
                          (js_sin (fdiv dLon 2)))
                    (js_sin (fdiv dLon 2))))"

text \<open>
  The result is NaN, written \<open>None\<close>, when one of the two square roots is: NaN goes
  through \<^verbatim>\<open>Math.atan2\<close> and through both multiplications.
\<close>

definition calculateDistance :: "real \<Rightarrow> real \<Rightarrow> real \<Rightarrow> real \<Rightarrow> real option" where
  "calculateDistance lat1 lon1 lat2 lon2 =
     (let R = 3959;
          a = haversine_a lat1 lon1 lat2 lon2
      in case js_sqrt a of
           None \<Rightarrow> None
         | Some sa \<Rightarrow>
             (case js_sqrt (fsub 1 a) of
                None \<Rightarrow> None
              | Some sb \<Rightarrow> Some (fmul R (fmul 2 (js_atan2 sa sb)))))"

section \<open>Facts about rounding\<close>

lemma rhe_of_int: "rhe (of_int k) = k"
  by (simp add: rhe_def)

lemma rhe_lower: "\<lfloor>x\<rfloor> \<le> rhe x"
  by (simp add: rhe_def Let_def)

lemma rhe_upper: "rhe x \<le> \<lfloor>x\<rfloor> + 1"
  by (simp add: rhe_def Let_def)

lemma rhe_mono:
  assumes "x \<le> y"
  shows "rhe x \<le> rhe y"
proof (cases "\<lfloor>x\<rfloor> = \<lfloor>y\<rfloor>")
  case True
  with assms show ?thesis
    by (auto simp add: rhe_def Let_def)
next
  case False
  with assms have "\<lfloor>x\<rfloor> < \<lfloor>y\<rfloor>"
    using floor_mono [of x y] by linarith
  then have "\<lfloor>x\<rfloor> + 1 \<le> \<lfloor>y\<rfloor>" by simp
  with rhe_upper [of x] rhe_lower [of y] show ?thesis by linarith
qed

lemma rhe_minus: "rhe (- x) = - rhe x"
proof (cases "x = of_int \<lfloor>x\<rfloor>")
  case True
  then have "rhe x = \<lfloor>x\<rfloor>" using rhe_of_int [of "\<lfloor>x\<rfloor>"] by simp
  moreover from True have "- x = of_int (- \<lfloor>x\<rfloor>)" by simp
  then have "rhe (- x) = - \<lfloor>x\<rfloor>" using rhe_of_int [of "- \<lfloor>x\<rfloor>"] by simp
  ultimately show ?thesis by simp
next
  case False
  then have f: "\<lfloor>- x\<rfloor> = - \<lfloor>x\<rfloor> - 1"
    by (simp add: floor_minus ceiling_altdef)
  show ?thesis
    unfolding rhe_def Let_def f
    by (auto simp add: algebra_simps)
qed


lemma powr_succ_powi: "(2::real) powr (real_of_int e + 1) = 2 powi (e + 1)"
  using powr_real_of_int' [of 2 "e + 1"] by simp

lemma powr_powi: "(2::real) powr real_of_int e = 2 powi e"
  using powr_real_of_int' [of 2 e] by simp

lemma binexp_eqI:
  assumes "0 < x" and "2 powi e \<le> x" and "x < 2 powi (e + 1)"
  shows "binexp x = e"
proof -
  have "2 powr real_of_int e \<le> x \<and> x < 2 powr (real_of_int e + 1)"
    using assms by (simp only: powr_succ_powi powr_powi simp_thms)
  then have "\<lfloor>log 2 x\<rfloor> = e"
    using assms(1) by (simp add: floor_log_eq_powr_iff)
  with assms(1) show ?thesis by (simp add: binexp_def)
qed

lemma binexp_bounds:
  assumes "0 < x"
  shows "2 powi binexp x \<le> x" and "x < 2 powi (binexp x + 1)"
proof -
  have "\<lfloor>log 2 x\<rfloor> = binexp x" using assms by (simp add: binexp_def)
  then have "2 powr real_of_int (binexp x) \<le> x \<and> x < 2 powr (real_of_int (binexp x) + 1)"
    using assms by (simp add: floor_log_eq_powr_iff)
  then show "2 powi binexp x \<le> x" and "x < 2 powi (binexp x + 1)"
    by (simp_all only: powr_succ_powi powr_powi)
qed

lemma binexp_minus: "binexp (- x) = binexp x"
  by (simp add: binexp_def)

lemma binexp_mono:
  assumes "0 < x" and "x \<le> y"
  shows "binexp x \<le> binexp y"
proof (rule ccontr)
  assume "\<not> binexp x \<le> binexp y"
  then have "binexp y + 1 \<le> binexp x" by simp
  then have "(2::real) powi (binexp y + 1) \<le> 2 powi binexp x"
    by (intro power_int_increasing) simp_all
  moreover from assms have "0 < y" by simp
  ultimately have "y < x"
    using binexp_bounds(2) [of y] binexp_bounds(1) [OF assms(1)] by linarith
  with assms(2) show False by simp
qed

lemma rnd_zero: "rnd 0 = 0"
  by (simp add: rnd_def)

lemma rnd_minus: "rnd (- x) = - rnd x"
  by (simp add: rnd_def binexp_minus rhe_minus)

text \<open>Evaluation once the binade is known.\<close>

lemma rnd_eval:
  assumes "2 ^ 52 * 2 powi k \<le> x" and "x < 2 ^ 53 * 2 powi k"
  shows "rnd x = of_int (rhe (x / 2 powi k)) * 2 powi k"
proof -
  have "(0::real) < 2 ^ 52 * 2 powi k" by simp
  with assms(1) have pos: "0 < x" by linarith
  have a: "(2::real) ^ 52 * 2 powi k = 2 powi (k + 52)"
    by (simp add: power_int_add)
  have b: "(2::real) ^ 53 * 2 powi k = 2 powi ((k + 52) + 1)"
    by (simp add: power_int_add)
  have "binexp x = k + 52"
    using pos assms unfolding a b by (rule binexp_eqI)
  with pos show ?thesis by (simp add: rnd_def)
qed

lemma rnd_scaled:
  assumes "0 < x"
  shows "2 ^ 52 \<le> x / 2 powi (binexp x - 52)" and "x / 2 powi (binexp x - 52) < 2 ^ 53"
proof -
  have u: "(0::real) < 2 powi (binexp x - 52)" by simp
  have a: "(2::real) ^ 52 * 2 powi (binexp x - 52) = 2 powi binexp x"
    by (simp add: power_int_diff)
  have b: "(2::real) ^ 53 * 2 powi (binexp x - 52) = 2 powi (binexp x + 1)"
    by (simp add: power_int_diff power_int_add)
  from binexp_bounds(1) [OF assms] have "2 ^ 52 * 2 powi (binexp x - 52) \<le> x"
    by (simp only: a)
  with u show "2 ^ 52 \<le> x / 2 powi (binexp x - 52)"
    by (simp add: pos_le_divide_eq)
  from binexp_bounds(2) [OF assms] have "x < 2 ^ 53 * 2 powi (binexp x - 52)"
    by (simp only: b)
  with u show "x / 2 powi (binexp x - 52) < 2 ^ 53"
    by (simp add: pos_divide_less_eq)
qed

lemma rnd_pos_unfold:
  "0 < x \<Longrightarrow> rnd x = real_of_int (rhe (x / 2 powi (binexp x - 52))) * 2 powi (binexp x - 52)"
  by (simp add: rnd_def)

lemma rnd_lower:
  assumes "0 < x"
  shows "2 powi binexp x \<le> rnd x"
proof -
  have "rhe (2 ^ 52) \<le> rhe (x / 2 powi (binexp x - 52))"
    using rnd_scaled(1) [OF assms] by (rule rhe_mono)
  moreover have "rhe (2 ^ 52) = 2 ^ 52"
    using rhe_of_int [of "2 ^ 52"] by simp
  ultimately have "(2::int) ^ 52 \<le> rhe (x / 2 powi (binexp x - 52))" by simp
  then have "real_of_int (2 ^ 52) \<le> real_of_int (rhe (x / 2 powi (binexp x - 52)))"
    by (simp only: of_int_le_iff)
  then have le: "(2::real) ^ 52 \<le> real_of_int (rhe (x / 2 powi (binexp x - 52)))" by simp
  have "(2::real) powi binexp x = 2 ^ 52 * 2 powi (binexp x - 52)"
    by (simp add: power_int_diff)
  also have "\<dots> \<le> real_of_int (rhe (x / 2 powi (binexp x - 52))) * 2 powi (binexp x - 52)"
    using le by (rule mult_right_mono) simp
  also have "\<dots> = rnd x"
    using assms by (simp only: rnd_pos_unfold)
  finally show ?thesis .
qed

lemma rnd_upper:
  assumes "0 < x"
  shows "rnd x \<le> 2 powi (binexp x + 1)"
proof -
  have "x / 2 powi (binexp x - 52) \<le> 2 ^ 53"
    using rnd_scaled(2) [OF assms] by simp
  then have "rhe (x / 2 powi (binexp x - 52)) \<le> rhe (2 ^ 53)"
    by (rule rhe_mono)
  moreover have "rhe (2 ^ 53) = 2 ^ 53"
    using rhe_of_int [of "2 ^ 53"] by simp
  ultimately have "rhe (x / 2 powi (binexp x - 52)) \<le> (2::int) ^ 53" by simp
  then have "real_of_int (rhe (x / 2 powi (binexp x - 52))) \<le> real_of_int (2 ^ 53)"
    by (simp only: of_int_le_iff)
  then have le: "real_of_int (rhe (x / 2 powi (binexp x - 52))) \<le> (2::real) ^ 53" by simp
  have "rnd x = real_of_int (rhe (x / 2 powi (binexp x - 52))) * 2 powi (binexp x - 52)"
    using assms by (simp only: rnd_pos_unfold)
  also have "\<dots> \<le> 2 ^ 53 * 2 powi (binexp x - 52)"
    using le by (rule mult_right_mono) simp
  also have "\<dots> = 2 powi (binexp x + 1)"
    by (simp add: power_int_diff power_int_add)
  finally show ?thesis .
qed

lemma rnd_pos: "0 < x \<Longrightarrow> 0 < rnd x"
  using rnd_lower [of x] zero_less_power_int [of "2::real" "binexp x"] by linarith

lemma rnd_mono_pos:
  assumes "0 < x" and "x \<le> y"
  shows "rnd x \<le> rnd y"
proof (cases "binexp x = binexp y")
  case True
  from assms have y: "0 < y" by simp
  have "x / 2 powi (binexp y - 52) \<le> y / 2 powi (binexp y - 52)"
    using assms(2) by (simp add: divide_right_mono)
  then have "rhe (x / 2 powi (binexp y - 52)) \<le> rhe (y / 2 powi (binexp y - 52))"
    by (rule rhe_mono)
  then have "real_of_int (rhe (x / 2 powi (binexp y - 52))) * 2 powi (binexp y - 52)
           \<le> real_of_int (rhe (y / 2 powi (binexp y - 52))) * 2 powi (binexp y - 52)"
    by (intro mult_right_mono) simp_all
  with assms(1) y True show ?thesis by (simp add: rnd_def)
next
  case False
  from assms have y: "0 < y" by simp
  from False binexp_mono [OF assms] have "binexp x + 1 \<le> binexp y" by simp
  then have "(2::real) powi (binexp x + 1) \<le> 2 powi binexp y"
    by (intro power_int_increasing) simp_all
  with rnd_upper [OF assms(1)] rnd_lower [OF y] show ?thesis by linarith
qed

lemma rnd_mono:
  assumes "x \<le> y"
  shows "rnd x \<le> rnd y"
proof -
  consider "0 < x" | "x = 0" | "x < 0" "0 \<le> y" | "x < 0" "y < 0" by linarith
  then show ?thesis
  proof cases
    case 1
    then show ?thesis using assms by (rule rnd_mono_pos)
  next
    case 2
    show ?thesis
    proof (cases "y = 0")
      case True
      with 2 show ?thesis by simp
    next
      case False
      with 2 assms have "0 < y" by simp
      then have "0 < rnd y" by (rule rnd_pos)
      with 2 show ?thesis by (simp add: rnd_zero)
    qed
  next
    case 3
    then have "0 < rnd (- x)" by (intro rnd_pos) simp
    then have "rnd x < 0" by (simp add: rnd_minus)
    moreover have "0 \<le> rnd y"
    proof (cases "y = 0")
      case True
      then show ?thesis by (simp add: rnd_zero)
    next
      case False
      with 3 have "0 < y" by simp
      then show ?thesis using rnd_pos [of y] by simp
    qed
    ultimately show ?thesis by simp
  next
    case 4
    then have "0 < - y" and "- y \<le> - x" using assms by simp_all
    then have "rnd (- y) \<le> rnd (- x)" by (rule rnd_mono_pos)
    then show ?thesis by (simp add: rnd_minus)
  qed
qed

lemma rnd_nonneg: "0 \<le> x \<Longrightarrow> 0 \<le> rnd x"
  using rnd_mono [of 0 x] by (simp add: rnd_zero)


lemma rnd_exact_pos:
  assumes "0 < m" and "m < 2 ^ 53"
  shows "rnd (real_of_int m * 2 powi k) = real_of_int m * 2 powi k"
proof -
  define x where "x = real_of_int m * 2 powi k"
  have pos: "0 < x" using assms(1) by (simp add: x_def)
  define j where "j = k - (binexp x - 52)"
  have sc: "x / 2 powi (binexp x - 52) = real_of_int m * 2 powi j"
    by (simp add: x_def j_def power_int_diff)
  have "2 ^ 52 \<le> real_of_int m * 2 powi j"
    using rnd_scaled(1) [OF pos] by (simp only: sc)
  moreover have "real_of_int m < real_of_int (2 ^ 53)"
    using assms(2) by (simp only: of_int_less_iff)
  then have "real_of_int m < 2 ^ 53" by simp
  then have "real_of_int m * 2 powi j < 2 ^ 53 * 2 powi j"
    by (rule mult_strict_right_mono) simp
  ultimately have "(2::real) ^ 52 < 2 ^ 53 * 2 powi j" by linarith
  then have half: "(2::real) powi (- 1) < 2 powi j" by (simp add: power_int_minus field_simps)
  have j0: "0 \<le> j"
  proof (rule ccontr)
    assume "\<not> 0 \<le> j"
    then have "j \<le> - 1" by simp
    then have "(2::real) powi j \<le> 2 powi (- 1)"
      by (intro power_int_increasing) simp_all
    with half show False by simp
  qed
  then have "real_of_int m * 2 powi j = real_of_int (m * 2 ^ nat j)"
    by (simp add: power_int_nonneg_exp)
  then have "rhe (x / 2 powi (binexp x - 52)) = m * 2 ^ nat j"
    by (simp only: sc rhe_of_int)
  then have "rnd x = real_of_int (m * 2 ^ nat j) * 2 powi (binexp x - 52)"
    using pos by (simp only: rnd_pos_unfold)
  also have "\<dots> = real_of_int m * (2 powi j * 2 powi (binexp x - 52))"
    using j0 by (simp add: power_int_nonneg_exp)
  also have "2 powi j * (2::real) powi (binexp x - 52) = 2 powi k"
    by (simp add: j_def power_int_add [symmetric])
  finally show ?thesis by (simp only: x_def)
qed

lemma rnd_exact:
  assumes "\<bar>m\<bar> < 2 ^ 53"
  shows "rnd (real_of_int m * 2 powi k) = real_of_int m * 2 powi k"
proof -
  consider "0 < m" | "m = 0" | "m < 0" by linarith
  then show ?thesis
  proof cases
    case 1
    with assms show ?thesis by (intro rnd_exact_pos) simp_all
  next
    case 2
    then show ?thesis by (simp add: rnd_zero)
  next
    case 3
    with assms have "rnd (real_of_int (- m) * 2 powi k) = real_of_int (- m) * 2 powi k"
      by (intro rnd_exact_pos) simp_all
    then have "rnd (- (real_of_int m * 2 powi k)) = - (real_of_int m * 2 powi k)" by simp
    then show ?thesis by (simp only: rnd_minus neg_equal_iff_equal)
  qed
qed

lemma rnd_of_int: "\<bar>m\<bar> < 2 ^ 53 \<Longrightarrow> rnd (real_of_int m) = real_of_int m"
  using rnd_exact [of m 0] by simp


lemma rnd_one: "rnd 1 = 1"
  using rnd_of_int [of 1] by simp

lemma rnd_numeral: "numeral w < (2::int) ^ 53 \<Longrightarrow> rnd (numeral w) = numeral w"
  using rnd_of_int [of "numeral w"] by simp

lemma rnd_neg_numeral: "numeral w < (2::int) ^ 53 \<Longrightarrow> rnd (- numeral w) = - numeral w"
  using rnd_numeral [of w] by (simp add: rnd_minus)

lemma rnd_eq_zero_iff: "rnd x = 0 \<longleftrightarrow> x = 0"
proof
  assume r: "rnd x = 0"
  show "x = 0"
  proof (rule ccontr)
    assume "x \<noteq> 0"
    then consider "0 < x" | "0 < - x" by linarith
    then show False
    proof cases
      case 1
      then show False using rnd_pos [of x] r by simp
    next
      case 2
      then show False using rnd_pos [of "- x"] r by (simp add: rnd_minus)
    qed
  qed
next
  assume "x = 0"
  then show "rnd x = 0" by (simp add: rnd_zero)
qed

text \<open>A number between two numbers that round to the same double rounds to it too.\<close>

lemma rnd_sandwich:
  assumes "lo \<le> x" and "x \<le> hi" and "rnd lo = v" and "rnd hi = v"
  shows "rnd x = v"
  using rnd_mono [OF assms(1)] rnd_mono [OF assms(2)] assms(3,4) by simp

lemmas dbl_ops = fadd_def fsub_def fmul_def fdiv_def js_pow_def fsqrt_def

lemmas dbl_int = rnd_zero rnd_one rnd_numeral rnd_neg_numeral

section \<open>Roundings at particular numbers\<close>

text \<open>Each is evaluated in its binade by \<open>rnd_eval\<close>.\<close>

lemma ev_1: "rnd (3 / 10) = 5404319552844595 / 18014398509481984"
  by (subst rnd_eval [of "- 54"]) (simp_all add: rhe_def Let_def power_int_minus)

lemma ev_2: "rnd (19 / 20) = 4278419646001971 / 4503599627370496"
  by (subst rnd_eval [of "- 53"]) (simp_all add: rhe_def Let_def power_int_minus)

lemma ev_3: "rnd (21 / 20) = 4728779608739021 / 4503599627370496"
  by (subst rnd_eval [of "- 52"]) (simp_all add: rhe_def Let_def power_int_minus)

lemma ev_4: "rnd (1 / 20) = 3602879701896397 / 72057594037927936"
  by (subst rnd_eval [of "- 57"]) (simp_all add: rhe_def Let_def power_int_minus)

lemma ev_5: "rnd (7 / 10) = 3152519739159347 / 4503599627370496"
  by (subst rnd_eval [of "- 53"]) (simp_all add: rhe_def Let_def power_int_minus)

lemma ev_6: "rnd (13 / 10) = 5854679515581645 / 4503599627370496"
  by (subst rnd_eval [of "- 52"]) (simp_all add: rhe_def Let_def power_int_minus)

lemma ev_7: "rnd (9 / 10) = 8106479329266893 / 9007199254740992"
  by (subst rnd_eval [of "- 53"]) (simp_all add: rhe_def Let_def power_int_minus)

lemma ev_8: "rnd (6 / 5) = 5404319552844595 / 4503599627370496"
  by (subst rnd_eval [of "- 52"]) (simp_all add: rhe_def Let_def power_int_minus)

lemma ev_9: "rnd (23 / 20) = 2589569785738035 / 2251799813685248"
  by (subst rnd_eval [of "- 52"]) (simp_all add: rhe_def Let_def power_int_minus)

lemma ev_10: "rnd (1 / 10) = 3602879701896397 / 36028797018963968"
  by (subst rnd_eval [of "- 56"]) (simp_all add: rhe_def Let_def power_int_minus)

lemma ev_11: "rnd (1 / 2) = 1 / 2"
  by (subst rnd_eval [of "- 53"]) (simp_all add: rhe_def Let_def power_int_minus)

lemma ev_12: "rnd (12610078956637389 / 18014398509481984) = 3152519739159347 / 4503599627370496"
  by (subst rnd_eval [of "- 53"]) (simp_all add: rhe_def Let_def power_int_minus)

lemma ev_13: "rnd (135107988821114875 / 4503599627370496) = 30"
  by (subst rnd_eval [of "- 48"]) (simp_all add: rhe_def Let_def power_int_minus)

lemma ev_14: "rnd (106960491150049275 / 1125899906842624) = 95"
  by (subst rnd_eval [of "- 46"]) (simp_all add: rhe_def Let_def power_int_minus)

lemma ev_15: "rnd (19815838360430183 / 9007199254740992) = 2476979795053773 / 1125899906842624"
  by (subst rnd_eval [of "- 51"]) (simp_all add: rhe_def Let_def power_int_minus)

lemma ev_16: "rnd (27922317689697077 / 9007199254740992) = 6980579422424269 / 2251799813685248"
  by (subst rnd_eval [of "- 51"]) (simp_all add: rhe_def Let_def power_int_minus)

lemma ev_17: "rnd (36028797018963969 / 9007199254740992) = 4"
  by (subst rnd_eval [of "- 50"]) (simp_all add: rhe_def Let_def power_int_minus)

lemma ev_18: "rnd (91423072435621063 / 2251799813685248) = 1428485506806579 / 35184372088832"
  by (subst rnd_eval [of "- 47"]) (simp_all add: rhe_def Let_def power_int_minus)

lemma ev_19: "rnd (178342545243871635 / 18014398509481984) = 5573204538870989 / 562949953421312"
  by (subst rnd_eval [of "- 49"]) (simp_all add: rhe_def Let_def power_int_minus)

lemma ev_20: "rnd (28428972647776253 / 562949953421312) = 7107243161944063 / 140737488355328"
  by (subst rnd_eval [of "- 47"]) (simp_all add: rhe_def Let_def power_int_minus)

lemma ev_21: "rnd (7107243161944063 / 140737488355328) = 7107243161944063 / 140737488355328"
  by (subst rnd_eval [of "- 47"]) (simp_all add: rhe_def Let_def power_int_minus)

lemma ev_22: "rnd (140 / 3) = 6567749456581973 / 140737488355328"
  by (subst rnd_eval [of "- 47"]) (simp_all add: rhe_def Let_def power_int_minus)

lemma ev_23: "rnd (102 / 35) = 6562388028454151 / 2251799813685248"
  by (subst rnd_eval [of "- 51"]) (simp_all add: rhe_def Let_def power_int_minus)

lemma ev_24: "rnd (4728779608739021 / 4503599627370496) = 4728779608739021 / 4503599627370496"
  by (subst rnd_eval [of "- 52"]) (simp_all add: rhe_def Let_def power_int_minus)

lemma ev_25: "rnd (31057439705591620073959250268433 / 633825300114114700748351602688) = 49"
  by (subst rnd_eval [of "- 47"]) (simp_all add: rhe_def Let_def power_int_minus)

lemma ev_26: "rnd (165 / 2) = 165 / 2"
  by (subst rnd_eval [of "- 46"]) (simp_all add: rhe_def Let_def power_int_minus)

lemma ev_27: "rnd (- (85 / 2)) = - (85 / 2)"
proof -
  have "rnd (85 / 2) = 85 / 2"
    by (subst rnd_eval [of "- 47"]) (simp_all add: rhe_def Let_def power_int_minus)
  then show ?thesis by (simp only: rnd_minus)
qed

lemma ev_28: "rnd (7225 / 4) = 7225 / 4"
  by (subst rnd_eval [of "- 42"]) (simp_all add: rhe_def Let_def power_int_minus)

lemma ev_29: "rnd (85 / 2) = 85 / 2"
  by (subst rnd_eval [of "- 47"]) (simp_all add: rhe_def Let_def power_int_minus)

lemma ev_30: "rnd (7225 / 2) = 7225 / 2"
  by (subst rnd_eval [of "- 41"]) (simp_all add: rhe_def Let_def power_int_minus)

lemma ev_31: "rnd (780248635441938465 / 9007199254740992) = 693 / 8"
  by (subst rnd_eval [of "- 46"]) (simp_all add: rhe_def Let_def power_int_minus)

lemma ev_32: "rnd (693 / 8) = 693 / 8"
  by (subst rnd_eval [of "- 46"]) (simp_all add: rhe_def Let_def power_int_minus)

lemma ev_33: "rnd (17 / 40) = 7656119366529843 / 18014398509481984"
  by (subst rnd_eval [of "- 54"]) (simp_all add: rhe_def Let_def power_int_minus)

lemma ev_34: "rnd (10358279142952141 / 18014398509481984) = 2589569785738035 / 4503599627370496"
  by (subst rnd_eval [of "- 53"]) (simp_all add: rhe_def Let_def power_int_minus)

lemma ev_35: "rnd (2589569785738035 / 4503599627370496) = 2589569785738035 / 4503599627370496"
  by (subst rnd_eval [of "- 53"]) (simp_all add: rhe_def Let_def power_int_minus)

lemma ev_36: "rnd (64739244643450875 / 1125899906842624) = 8092405580431359 / 140737488355328"
  by (subst rnd_eval [of "- 47"]) (simp_all add: rhe_def Let_def power_int_minus)

lemma ev_37: "rnd (57 / 100) = 5134103575202365 / 9007199254740992"
  by (subst rnd_eval [of "- 53"]) (simp_all add: rhe_def Let_def power_int_minus)

lemma ev_38: "rnd (22361356588025968533913688038441 / 20282409603651670423947251286016) = 1241304647293993 / 1125899906842624"
  by (subst rnd_eval [of "- 52"]) (simp_all add: rhe_def Let_def power_int_minus)

lemma ev_39: "rnd (204815266803508845 / 2251799813685248) = 6400477087609651 / 70368744177664"
  by (subst rnd_eval [of "- 46"]) (simp_all add: rhe_def Let_def power_int_minus)

lemma ev_40: "rnd (6400477087609651 / 70368744177664) = 6400477087609651 / 70368744177664"
  by (subst rnd_eval [of "- 46"]) (simp_all add: rhe_def Let_def power_int_minus)

lemma ev_41: "rnd (3602879701896397 / 72057594037927936) = 3602879701896397 / 72057594037927936"
  by (subst rnd_eval [of "- 57"]) (simp_all add: rhe_def Let_def power_int_minus)

lemma ev_42: "rnd (37830236869912163 / 72057594037927936) = 1182194902184755 / 2251799813685248"
  by (subst rnd_eval [of "- 53"]) (simp_all add: rhe_def Let_def power_int_minus)

lemma ev_43: "rnd (29554872554618875 / 562949953421312) = 7388718138654719 / 140737488355328"
  by (subst rnd_eval [of "- 47"]) (simp_all add: rhe_def Let_def power_int_minus)

lemma ev_44: "rnd (13 / 25) = 1170935903116329 / 2251799813685248"
  by (subst rnd_eval [of "- 53"]) (simp_all add: rhe_def Let_def power_int_minus)

lemma ev_45: "rnd (1024568915226787775 / 4503599627370496) = 8004444650209279 / 35184372088832"
  by (subst rnd_eval [of "- 45"]) (simp_all add: rhe_def Let_def power_int_minus)

lemma ev_46: "rnd (135107988821114875 / 9007199254740992) = 15"
  by (subst rnd_eval [of "- 49"]) (simp_all add: rhe_def Let_def power_int_minus)

lemma ev_47: "rnd (8532210231541759 / 35184372088832) = 8532210231541759 / 35184372088832"
  by (subst rnd_eval [of "- 45"]) (simp_all add: rhe_def Let_def power_int_minus)

lemma ev_48: "rnd (78812993478983675 / 1125899906842624) = 70"
  by (subst rnd_eval [of "- 46"]) (simp_all add: rhe_def Let_def power_int_minus)

lemma ev_49: "rnd (10358279142952141 / 4503599627370496) = 2589569785738035 / 1125899906842624"
  by (subst rnd_eval [of "- 51"]) (simp_all add: rhe_def Let_def power_int_minus)

lemma ev_50: "rnd (28823037615171173 / 9007199254740992) = 7205759403792793 / 2251799813685248"
  by (subst rnd_eval [of "- 51"]) (simp_all add: rhe_def Let_def power_int_minus)

lemma ev_51: "rnd (9457559217478041 / 2251799813685248) = 1182194902184755 / 281474976710656"
  by (subst rnd_eval [of "- 50"]) (simp_all add: rhe_def Let_def power_int_minus)

lemma ev_52: "rnd (1182194902184755 / 1125899906842624) = 1182194902184755 / 1125899906842624"
  by (subst rnd_eval [of "- 52"]) (simp_all add: rhe_def Let_def power_int_minus)

lemma ev_53: "rnd (5910974510923775 / 562949953421312) = 5910974510923775 / 562949953421312"
  by (subst rnd_eval [of "- 49"]) (simp_all add: rhe_def Let_def power_int_minus)

lemma ev_54: "rnd (3602879701896397 / 36028797018963968) = 3602879701896397 / 36028797018963968"
  by (subst rnd_eval [of "- 56"]) (simp_all add: rhe_def Let_def power_int_minus)

lemma ev_55: "rnd (3602879701896397 / 18014398509481984) = 3602879701896397 / 18014398509481984"
  by (subst rnd_eval [of "- 55"]) (simp_all add: rhe_def Let_def power_int_minus)

lemma ev_56: "rnd (10808639105689191 / 36028797018963968) = 1351079888211149 / 4503599627370496"
  by (subst rnd_eval [of "- 54"]) (simp_all add: rhe_def Let_def power_int_minus)

lemma ev_57: "rnd (1351079888211149 / 13510798882111488) = 7205759403792795 / 72057594037927936"
  by (subst rnd_eval [of "- 56"]) (simp_all add: rhe_def Let_def power_int_minus)

lemma ev_58: "rnd (4053239664633447 / 4503599627370496) = 4053239664633447 / 4503599627370496"
  by (subst rnd_eval [of "- 53"]) (simp_all add: rhe_def Let_def power_int_minus)

lemma ev_59: "rnd (- (1 / 72057594037927936)) = - (1 / 72057594037927936)"
proof -
  have "rnd (1 / 72057594037927936) = 1 / 72057594037927936"
    by (subst rnd_eval [of "- 108"]) (simp_all add: rhe_def Let_def power_int_minus)
  then show ?thesis by (simp only: rnd_minus)
qed

lemma ev_60: "rnd (1 / 5192296858534827628530496329220096) = 1 / 5192296858534827628530496329220096"
  by (subst rnd_eval [of "- 164"]) (simp_all add: rhe_def Let_def power_int_minus)

lemma ev_61: "rnd (1 / 2596148429267413814265248164610048) = 1 / 2596148429267413814265248164610048"
  by (subst rnd_eval [of "- 163"]) (simp_all add: rhe_def Let_def power_int_minus)

lemma ev_62: "rnd (3 / 5192296858534827628530496329220096) = 3 / 5192296858534827628530496329220096"
  by (subst rnd_eval [of "- 163"]) (simp_all add: rhe_def Let_def power_int_minus)

lemma ev_63: "rnd (1 / 72057594037927936) = 1 / 72057594037927936"
  by (subst rnd_eval [of "- 108"]) (simp_all add: rhe_def Let_def power_int_minus)

lemma ev_64: "rnd (4 / 5) = 3602879701896397 / 4503599627370496"
  by (subst rnd_eval [of "- 53"]) (simp_all add: rhe_def Let_def power_int_minus)

lemma ev_65: "rnd (3602879701896397 / 4503599627370496) = 3602879701896397 / 4503599627370496"
  by (subst rnd_eval [of "- 53"]) (simp_all add: rhe_def Let_def power_int_minus)

lemma ev_66: "rnd (19815838360430183 / 18014398509481984) = 2476979795053773 / 2251799813685248"
  by (subst rnd_eval [of "- 52"]) (simp_all add: rhe_def Let_def power_int_minus)

lemma ev_67: "rnd (2476979795053773 / 4503599627370496) = 2476979795053773 / 4503599627370496"
  by (subst rnd_eval [of "- 53"]) (simp_all add: rhe_def Let_def power_int_minus)

lemma ev_68: "rnd (5404319552844595 / 18014398509481984) = 5404319552844595 / 18014398509481984"
  by (subst rnd_eval [of "- 54"]) (simp_all add: rhe_def Let_def power_int_minus)

lemma ev_69: "rnd (5404319552844595 / 9007199254740992) = 5404319552844595 / 9007199254740992"
  by (subst rnd_eval [of "- 53"]) (simp_all add: rhe_def Let_def power_int_minus)

lemma ev_70: "rnd (2476979795053773 / 2251799813685248) = 2476979795053773 / 2251799813685248"
  by (subst rnd_eval [of "- 52"]) (simp_all add: rhe_def Let_def power_int_minus)

lemma ev_71: "rnd (- (4503599627370497 / 9007199254740992)) = - (4503599627370497 / 9007199254740992)"
proof -
  have "rnd (4503599627370497 / 9007199254740992) = 4503599627370497 / 9007199254740992"
    by (subst rnd_eval [of "- 53"]) (simp_all add: rhe_def Let_def power_int_minus)
  then show ?thesis by (simp only: rnd_minus)
qed

lemma sq_1: "sqrt (7225 / 4) = 85 / 2"
  by (rule real_sqrt_unique) (simp_all add: power2_eq_square)

lemma sq_2: "sqrt (1 / 5192296858534827628530496329220096) = 1 / 72057594037927936"
  by (rule real_sqrt_unique) (simp_all add: power2_eq_square)

lemmas ev =
  ev_1 ev_2 ev_3 ev_4 ev_5 ev_6 ev_7 ev_8
  ev_9 ev_10 ev_11 ev_12 ev_13 ev_14 ev_15 ev_16
  ev_17 ev_18 ev_19 ev_20 ev_21 ev_22 ev_23 ev_24
  ev_25 ev_26 ev_27 ev_28 ev_29 ev_30 ev_31 ev_32
  ev_33 ev_34 ev_35 ev_36 ev_37 ev_38 ev_39 ev_40
  ev_41 ev_42 ev_43 ev_44 ev_45 ev_46 ev_47 ev_48
  ev_49 ev_50 ev_51 ev_52 ev_53 ev_54 ev_55 ev_56
  ev_57 ev_58 ev_59 ev_60 ev_61 ev_62 ev_63 ev_64
  ev_65 ev_66 ev_67 ev_68 ev_69 ev_70 ev_71 sq_1
  sq_2

lemmas coef_defs =
  coef_windSpeed_low_def coef_windSpeed_medium_def coef_windSpeed_high_def
  coef_humidity_low_def coef_humidity_medium_def coef_humidity_high_def
  coef_pressure_low_def coef_pressure_medium_def coef_pressure_high_def
  coef_temperature_cold_def coef_temperature_mild_def coef_temperature_hot_def

section \<open>Facts about the library functions\<close>

lemma js_round_mono: "x \<le> y \<Longrightarrow> js_round x \<le> js_round y"
  by (simp add: js_round_def floor_mono)

lemma js_round_zero: "js_round 0 = 0"
  by (simp add: js_round_def)

text \<open>Clamping at zero before or after \<^verbatim>\<open>Math.round\<close> gives the same number.\<close>

lemma max_zero_js_round: "max 0 (js_round x) = js_round (max 0 x)"
proof (cases "0 \<le> x")
  case True
  then have "0 \<le> js_round x" using js_round_mono [of 0 x] by (simp add: js_round_zero)
  with True show ?thesis by (simp add: max_def)
next
  case False
  then have "js_round x \<le> 0" using js_round_mono [of x 0] by (simp add: js_round_zero)
  with False show ?thesis by (simp add: max_def js_round_zero)
qed

lemma slice_last_rev: "slice_last k xs = rev (take k (rev xs))"
  by (simp add: slice_last_def take_rev)

text \<open>\<^verbatim>\<open>reduce\<close> as a left fold over the list paired with its indices.\<close>

lemma reduce_idx_foldl:
  "reduce_idx f acc k ys = foldl (\<lambda>s (i, y). f s y i) acc (enumerate k ys)"
  by (induction ys arbitrary: acc k) simp_all

lemma foldl_enumerate_ignore:
  "foldl (\<lambda>s (i, y). g s y) acc (enumerate k ys) = foldl g acc ys"
  by (induction ys arbitrary: acc k) simp_all

lemma reduce_foldl_idx:
  "reduce f init ys = foldl (\<lambda>s (i, y). f s y i) init (enumerate 0 ys)"
  by (simp add: reduce_def reduce_idx_foldl)

lemma reduce_foldl: "reduce (\<lambda>s y i. g s y) init ys = foldl g init ys"
  by (simp add: reduce_foldl_idx foldl_enumerate_ignore)

section \<open>Facts about the trend analyzer\<close>

lemma analyzeAQITrend_long:
  assumes "2 \<le> length historical"
  shows "analyzeAQITrend historical =
     \<lparr> trend = (if trend_slope (map aqi (slice_last 6 historical)) < - 0.5 then improving
                else if trend_slope (map aqi (slice_last 6 historical)) > 0.5 then deteriorating
                else stable),
       volatility = fsqrt (trend_variance (map aqi (slice_last 6 historical))),
       averageAQI = trend_averageAQI (map aqi (slice_last 6 historical)) \<rparr>"
  using assms by (simp add: analyzeAQITrend_def Let_def)

text \<open>The argument of \<^verbatim>\<open>Math.sqrt\<close> in the trend analyzer is never negative.\<close>

lemma foldl_fadd_nonneg:
  assumes "0 \<le> acc" and "\<And>y. 0 \<le> h y"
  shows "0 \<le> foldl (\<lambda>s y. fadd s (h y)) acc ys"
  using assms(1)
proof (induction ys arbitrary: acc)
  case Nil
  then show ?case by simp
next
  case (Cons y ys)
  have "0 \<le> fadd acc (h y)"
    unfolding fadd_def using Cons.prems assms(2) [of y] by (intro rnd_nonneg) simp
  then show ?case by (simp add: Cons.IH)
qed

lemma trend_variance_nonneg: "0 \<le> trend_variance ys"
proof -
  have "0 \<le> foldl (\<lambda>s y. fadd s (js_pow (fsub y (trend_averageAQI ys)) 2)) 0 ys"
    by (rule foldl_fadd_nonneg) (simp_all add: js_pow_def rnd_nonneg)
  then show ?thesis
    unfolding trend_variance_def fdiv_def reduce_foldl
    by (intro rnd_nonneg divide_nonneg_nonneg) simp_all
qed

section \<open>Facts about the forecast generator\<close>

lemma length_generatePredictiveForecast:
  "currentAQI \<noteq> [] \<Longrightarrow>
     length (generatePredictiveForecast currentAQI weatherForecast regionalData) = length weatherForecast"
  by (simp add: generatePredictiveForecast_def Let_def)

lemma nth_generatePredictiveForecast:
  assumes "currentAQI \<noteq> []" and "i < length weatherForecast"
  shows "generatePredictiveForecast currentAQI weatherForecast regionalData ! i =
         forecast_point (analyzeAQITrend currentAQI) (map_option analyzeAQITrend regionalData)
           (weatherForecast ! i) i"
proof -
  from assms have ne: "weatherForecast \<noteq> []" by auto
  have "(case regionalData of None \<Rightarrow> None | Some rd \<Rightarrow> Some (analyzeAQITrend rd))
        = map_option analyzeAQITrend regionalData"
    by (cases regionalData) simp_all
  with assms ne show ?thesis
    by (simp add: generatePredictiveForecast_def Let_def nth_enumerate_eq)
qed

text \<open>In doubles \<^verbatim>\<open>1 - 0.3\<close> is the literal \<^verbatim>\<open>0.7\<close>.\<close>

lemma one_minus_regionalWeight: "fsub 1 (rnd 0.3) = rnd 0.7"
  by (simp add: fsub_def ev)

lemma forecast_baseAQI_blend:
  "forecast_baseAQI p (Some s) = fadd (fmul (averageAQI p) (rnd 0.7)) (fmul (averageAQI s) (rnd 0.3))"
  by (simp only: forecast_baseAQI_def Let_def option.case one_minus_regionalWeight)

text \<open>The confidence of a step: its bounds and its decrease along the steps.\<close>

lemma forecast_confidence_bounds:
  "rnd 0.3 \<le> forecast_confidence vol i \<and> forecast_confidence vol i \<le> rnd 0.95"
proof -
  define c where "c = max (rnd 0.3) (min (rnd 0.95)
              (fsub (fsub 1 (fdiv vol 100)) (fmul (real i) (rnd 0.05))))"
  have "rnd 0.3 \<le> rnd 0.95" by (rule rnd_mono) simp
  then have lo: "rnd 0.3 \<le> c" and hi: "c \<le> rnd 0.95"
    by (simp_all add: c_def max_def min_def)
  from lo have "rnd 0.3 * 100 \<le> c * 100" by simp
  then have "rnd (rnd 0.3 * 100) \<le> fmul c 100"
    unfolding fmul_def by (rule rnd_mono)
  then have "js_round (rnd (rnd 0.3 * 100)) \<le> js_round (fmul c 100)"
    by (rule js_round_mono)
  moreover have "js_round (rnd (rnd 0.3 * 100)) = 30"
    by (simp add: ev dbl_int js_round_def)
  ultimately have "30 / 100 \<le> js_round (fmul c 100) / 100" by simp
  then have l: "rnd (30 / 100) \<le> fdiv (js_round (fmul c 100)) 100"
    unfolding fdiv_def by (rule rnd_mono)
  from hi have "c * 100 \<le> rnd 0.95 * 100" by simp
  then have "fmul c 100 \<le> rnd (rnd 0.95 * 100)"
    unfolding fmul_def by (rule rnd_mono)
  then have "js_round (fmul c 100) \<le> js_round (rnd (rnd 0.95 * 100))"
    by (rule js_round_mono)
  moreover have "js_round (rnd (rnd 0.95 * 100)) = 95"
    by (simp add: ev dbl_int js_round_def)
  ultimately have "js_round (fmul c 100) / 100 \<le> 95 / 100" by simp
  then have u: "fdiv (js_round (fmul c 100)) 100 \<le> rnd (95 / 100)"
    unfolding fdiv_def by (rule rnd_mono)
  have "forecast_confidence vol i = fdiv (js_round (fmul c 100)) 100"
    by (simp only: forecast_confidence_def Let_def c_def)
  moreover have "rnd (30 / 100) = rnd 0.3" and "rnd (95 / 100) = rnd 0.95" by simp_all
  ultimately show ?thesis using l u by simp
qed

lemma forecast_confidence_antimono:
  assumes "i \<le> j"
  shows "forecast_confidence vol j \<le> forecast_confidence vol i"
proof -
  have "0 \<le> rnd 0.05" by (rule rnd_nonneg) simp
  with assms have "real i * rnd 0.05 \<le> real j * rnd 0.05"
    by (intro mult_right_mono) simp_all
  then have "fmul (real i) (rnd 0.05) \<le> fmul (real j) (rnd 0.05)"
    unfolding fmul_def by (rule rnd_mono)
  then have "fsub 1 (fdiv vol 100) - fmul (real j) (rnd 0.05)
           \<le> fsub 1 (fdiv vol 100) - fmul (real i) (rnd 0.05)" by simp
  then have "fsub (fsub 1 (fdiv vol 100)) (fmul (real j) (rnd 0.05))
           \<le> fsub (fsub 1 (fdiv vol 100)) (fmul (real i) (rnd 0.05))"
    unfolding fsub_def [of "fsub 1 (fdiv vol 100)"] by (rule rnd_mono)
  then have "max (rnd 0.3) (min (rnd 0.95) (fsub (fsub 1 (fdiv vol 100)) (fmul (real j) (rnd 0.05)))) * 100
           \<le> max (rnd 0.3) (min (rnd 0.95) (fsub (fsub 1 (fdiv vol 100)) (fmul (real i) (rnd 0.05)))) * 100"
    by (simp add: max_def min_def)
  then have "fmul (max (rnd 0.3) (min (rnd 0.95) (fsub (fsub 1 (fdiv vol 100)) (fmul (real j) (rnd 0.05))))) 100
           \<le> fmul (max (rnd 0.3) (min (rnd 0.95) (fsub (fsub 1 (fdiv vol 100)) (fmul (real i) (rnd 0.05))))) 100"
    unfolding fmul_def [of _ 100] by (rule rnd_mono)
  then have "js_round (fmul (max (rnd 0.3) (min (rnd 0.95) (fsub (fsub 1 (fdiv vol 100)) (fmul (real j) (rnd 0.05))))) 100) / 100
           \<le> js_round (fmul (max (rnd 0.3) (min (rnd 0.95) (fsub (fsub 1 (fdiv vol 100)) (fmul (real i) (rnd 0.05))))) 100) / 100"
    by (intro divide_right_mono js_round_mono) simp_all
  then show ?thesis
    unfolding forecast_confidence_def Let_def fdiv_def [of _ 100] by (rule rnd_mono)
qed

section \<open>Facts about the distance\<close>

lemma fsub_swap: "fsub a b = - fsub b a"
proof -
  have "a - b = - (b - a)" by simp
  then show ?thesis unfolding fsub_def by (simp only: rnd_minus)
qed

lemma fmul_minus_left: "fmul (- a) b = - fmul a b"
  by (simp add: fmul_def rnd_minus)

lemma fmul_minus_right: "fmul a (- b) = - fmul a b"
  by (simp add: fmul_def rnd_minus)

lemma fmul_commute: "fmul a b = fmul b a"
  by (simp add: fmul_def mult.commute)

lemma fdiv_minus_left: "fdiv (- a) b = - fdiv a b"
  by (simp add: fdiv_def rnd_minus)

lemma js_sin_minus: "js_sin (- x) = - js_sin x"
  by (simp add: js_sin_def rnd_minus)

lemma half_angle_swap:
  "js_sin (fdiv (fdiv (fmul (fsub a b) js_PI) 180) 2)
   = - js_sin (fdiv (fdiv (fmul (fsub b a) js_PI) 180) 2)"
  by (subst fsub_swap) (simp only: fmul_minus_left fdiv_minus_left js_sin_minus)

lemma haversine_a_sym: "haversine_a lat1 lon1 lat2 lon2 = haversine_a lat2 lon2 lat1 lon1"
  unfolding haversine_a_def Let_def
  by (simp only: half_angle_swap [of lat2 lat1] half_angle_swap [of lon2 lon1]
        fmul_minus_left fmul_minus_right minus_minus
        fmul_commute [of "js_cos (fdiv (fmul lat1 js_PI) 180)"])

lemma haversine_a_same: "haversine_a lat lon lat lon = 0"
  by (simp add: haversine_a_def Let_def dbl_ops js_sin_def rnd_zero)

lemmas trend_eval =
  analyzeAQITrend_def Let_def slice_last_def trend_slope_def trend_variance_def
  trend_averageAQI_def reduce_def

lemmas forecast_eval =
  forecast_baseAQI_def forecast_trendModifier_def forecast_confidence_def
  calculateWeatherImpact_def coef_defs js_round_def

section \<open>Properties of the weather impact model\<close>




section \<open>Properties of the trend analyzer\<close>

text \<open>
  C4, as amended. A history with fewer than two readings gives the trend stable and the
  volatility 0. The average is 50 for the empty history; for a single reading it is that
  reading's value when the value is not zero, and 50 when it is zero.
\<close>

theorem trend_short_history:
  "length historical < 2 \<Longrightarrow>
     trend (analyzeAQITrend historical) = stable \<and>
     volatility (analyzeAQITrend historical) = 0 \<and>
     (historical = [] \<longrightarrow> averageAQI (analyzeAQITrend historical) = 50) \<and>
     (historical \<noteq> [] \<and> aqi (hd historical) \<noteq> 0 \<longrightarrow>
        averageAQI (analyzeAQITrend historical) = aqi (hd historical)) \<and>
     (historical \<noteq> [] \<and> aqi (hd historical) = 0 \<longrightarrow>
        averageAQI (analyzeAQITrend historical) = 50)"
  by (cases historical) (simp_all add: analyzeAQITrend_def)

text \<open>
  The theorem at the empty history, at the single reading 72 and at the single reading 0.
\<close>

theorem trend_short_history_witness:
  "analyzeAQITrend [] = \<lparr>trend = stable, volatility = 0, averageAQI = 50\<rparr> \<and>
   analyzeAQITrend [\<lparr>aqi = 72\<rparr>] = \<lparr>trend = stable, volatility = 0, averageAQI = 72\<rparr> \<and>
   analyzeAQITrend [\<lparr>aqi = 0\<rparr>] = \<lparr>trend = stable, volatility = 0, averageAQI = 50\<rparr>"
  using trend_short_history [of "[]"] trend_short_history [of "[\<lparr>aqi = 72\<rparr>]"]
    trend_short_history [of "[\<lparr>aqi = 0\<rparr>]"]
  by simp

text \<open>
  C4 as written fails at the history made of one reading whose value is 0: the average
  returned is 50, not the reading's value.
\<close>

theorem trend_single_zero_counterexample:
  "length [\<lparr>aqi = 0\<rparr>] < 2 \<and> length [\<lparr>aqi = 0\<rparr>] = 1 \<and>
   averageAQI (analyzeAQITrend [\<lparr>aqi = 0\<rparr>]) = 50 \<and>
   averageAQI (analyzeAQITrend [\<lparr>aqi = 0\<rparr>]) \<noteq> aqi (hd [\<lparr>aqi = 0\<rparr>])"
  by (simp add: analyzeAQITrend_def)

lemma small_length_cases:
  assumes "2 \<le> n" and "n \<le> 6"
  shows "n = 2 \<or> n = 3 \<or> n = 4 \<or> n = 5 \<or> n = (6::nat)"
  using assms by presburger

lemma lessThan_small:
  "{..<2::nat} = {0, 1}" "{..<3::nat} = {0, 1, 2}" "{..<4::nat} = {0, 1, 2, 3}"
  "{..<5::nat} = {0, 1, 2, 3, 4}" "{..<6::nat} = {0, 1, 2, 3, 4, 5}"
  by auto

text \<open>
  For two to six points the closed forms of the source are exact in double arithmetic: they
  are the sum of the indices, the sum of their squares, and the denominator of the slope.
\<close>

lemma xSum_closed:
  assumes "2 \<le> n" and "n \<le> 6"
  shows "fdiv (fmul (real n) (fsub (real n) 1)) 2 = real (\<Sum>i<n. i)"
  using small_length_cases [OF assms]
  by (elim disjE) (simp_all add: dbl_ops dbl_int lessThan_small)

lemma xxSum_closed:
  assumes "2 \<le> n" and "n \<le> 6"
  shows "fdiv (fmul (fmul (real n) (fsub (real n) 1)) (fsub (fmul 2 (real n)) 1)) 6 = real (\<Sum>i<n. i\<^sup>2)"
  using small_length_cases [OF assms]
  by (elim disjE) (simp_all add: dbl_ops dbl_int lessThan_small)

lemma slope_denominator:
  assumes "2 \<le> n" and "n \<le> 6"
  shows "fsub (fmul (real n) (real (\<Sum>i<n. i\<^sup>2))) (fmul (real (\<Sum>i<n. i)) (real (\<Sum>i<n. i)))
           = real n * real (\<Sum>i<n. i\<^sup>2) - (real (\<Sum>i<n. i))\<^sup>2"
    and "0 < real n * real (\<Sum>i<n. i\<^sup>2) - (real (\<Sum>i<n. i))\<^sup>2"
  using small_length_cases [OF assms]
  by (elim disjE; simp add: dbl_ops dbl_int lessThan_small)+


text \<open>Integers of moderate size and their small multiples are doubles.\<close>

lemma rnd_int_multiple:
  assumes "\<bar>c\<bar> \<le> 2 ^ 40" and "numeral w \<le> (1024::int)"
  shows "rnd (numeral w * real_of_int c) = numeral w * real_of_int c"
proof -
  have "\<bar>numeral w * c\<bar> = numeral w * \<bar>c\<bar>" by (simp add: abs_mult)
  also have "\<dots> \<le> 1024 * 2 ^ 40"
    using assms by (intro mult_mono) simp_all
  also have "\<dots> < (2::int) ^ 53" by simp
  finally have "rnd (real_of_int (numeral w * c)) = real_of_int (numeral w * c)"
    by (rule rnd_of_int)
  then show ?thesis by simp
qed

lemma rnd_int_moderate:
  assumes "\<bar>c\<bar> \<le> 2 ^ 40"
  shows "rnd (real_of_int c) = real_of_int c"
proof -
  from assms have "\<bar>c\<bar> < 2 ^ 53" by simp
  then show ?thesis by (rule rnd_of_int)
qed

text \<open>A constant list of such integers has slope 0 and variance 0.\<close>

lemma trend_const:
  assumes "\<bar>c\<bar> \<le> 2 ^ 40" and "2 \<le> n" and "n \<le> 6"
  shows "trend_slope (replicate n (real_of_int c)) = 0 \<and>
         trend_variance (replicate n (real_of_int c)) = 0"
proof -
  note r = rnd_int_multiple [OF assms(1)] rnd_int_moderate [OF assms(1)]
  have two: "trend_slope (replicate 2 (real_of_int c)) = 0 \<and> trend_variance (replicate 2 (real_of_int c)) = 0"
    by (simp add: numeral_2_eq_2 trend_slope_def trend_variance_def trend_averageAQI_def Let_def
          reduce_def dbl_ops dbl_int r)
  have three: "trend_slope (replicate 3 (real_of_int c)) = 0 \<and> trend_variance (replicate 3 (real_of_int c)) = 0"
    by (simp add: numeral_3_eq_3 trend_slope_def trend_variance_def trend_averageAQI_def Let_def
          reduce_def dbl_ops dbl_int r)
  have four: "trend_slope (replicate 4 (real_of_int c)) = 0 \<and> trend_variance (replicate 4 (real_of_int c)) = 0"
    by (simp add: eval_nat_numeral trend_slope_def trend_variance_def trend_averageAQI_def Let_def
          reduce_def dbl_ops dbl_int r)
  have five: "trend_slope (replicate 5 (real_of_int c)) = 0 \<and> trend_variance (replicate 5 (real_of_int c)) = 0"
    by (simp add: eval_nat_numeral trend_slope_def trend_variance_def trend_averageAQI_def Let_def
          reduce_def dbl_ops dbl_int r)
  have six: "trend_slope (replicate 6 (real_of_int c)) = 0 \<and> trend_variance (replicate 6 (real_of_int c)) = 0"
    by (simp add: eval_nat_numeral trend_slope_def trend_variance_def trend_averageAQI_def Let_def
          reduce_def dbl_ops dbl_int r)
  from small_length_cases [OF assms(2,3)] two three four five six show ?thesis by auto
qed


text \<open>
  C5, as amended. For a history of two or more readings, let \<open>ys\<close> be the values of the
  last six readings (all of them when there are fewer) and \<open>n\<close> their number. All sums,
  products and quotients are the double-precision ones of the source. The trend is decided
  by the least-squares slope of \<open>ys\<close> against the indices \<open>0, \<dots>, n - 1\<close>, whose
  denominator is computed exactly and is positive: below -0.5 improving, above 0.5
  deteriorating, otherwise stable. The volatility is the square root of the mean squared
  deviation from the mean, the average is the mean, and a constant \<open>ys\<close> whose value is
  an integer of magnitude at most \<open>2 ^ 40\<close> gives stable with volatility 0.
\<close>

theorem trend_regression:
  assumes "2 \<le> length historical"
  shows "let ys = map aqi (rev (take 6 (rev historical)));
             n = length ys;
             sx = real (\<Sum>i<n. i);
             sxx = real (\<Sum>i<n. i\<^sup>2);
             ySum = foldl fadd 0 ys;
             xySum = foldl (\<lambda>s (i, y). fadd s (fmul (real i) y)) 0 (enumerate 0 ys);
             mean = fdiv ySum (real n);
             slope = fdiv (fsub (fmul (real n) xySum) (fmul sx ySum)) (real n * sxx - sx\<^sup>2);
             variance = fdiv (foldl (\<lambda>s y. fadd s (js_pow (fsub y mean) 2)) 0 ys) (real n)
         in n = min 6 (length historical) \<and>
            0 < real n * sxx - sx\<^sup>2 \<and>
            trend (analyzeAQITrend historical) =
              (if slope < - 0.5 then improving else if slope > 0.5 then deteriorating else stable) \<and>
            0 \<le> variance \<and>
            volatility (analyzeAQITrend historical) = fsqrt variance \<and>
            averageAQI (analyzeAQITrend historical) = mean \<and>
            (\<bar>c\<bar> \<le> 2 ^ 40 \<and> (\<forall>i<n. ys ! i = real_of_int c) \<longrightarrow>
               trend (analyzeAQITrend historical) = stable \<and>
               volatility (analyzeAQITrend historical) = 0)"
proof -
  define ys where "ys = map aqi (rev (take 6 (rev historical)))"
  have ys: "map aqi (slice_last 6 historical) = ys"
    by (simp add: ys_def slice_last_rev)
  have len: "length ys = min 6 (length historical)"
    by (simp add: ys_def min.commute)
  with assms have n2: "2 \<le> length ys" and n6: "length ys \<le> 6" by simp_all
  have avg_eq: "trend_averageAQI ys = fdiv (foldl fadd 0 ys) (real (length ys))"
    by (simp add: trend_averageAQI_def reduce_foldl)
  have var_eq: "trend_variance ys =
      fdiv (foldl (\<lambda>s y. fadd s (js_pow (fsub y (fdiv (foldl fadd 0 ys) (real (length ys)))) 2)) 0 ys)
        (real (length ys))"
    by (simp add: trend_variance_def reduce_foldl avg_eq)
  have slope_eq: "trend_slope ys =
      fdiv (fsub (fmul (real (length ys)) (foldl (\<lambda>s (i, y). fadd s (fmul (real i) y)) 0 (enumerate 0 ys)))
                 (fmul (real (\<Sum>i<length ys. i)) (foldl fadd 0 ys)))
           (real (length ys) * real (\<Sum>i<length ys. i\<^sup>2) - (real (\<Sum>i<length ys. i))\<^sup>2)"
    unfolding trend_slope_def Let_def xSum_closed [OF n2 n6] xxSum_closed [OF n2 n6]
      slope_denominator(1) [OF n2 n6]
    by (simp only: reduce_foldl reduce_foldl_idx)
  have tr: "trend (analyzeAQITrend historical) =
      (if trend_slope ys < - 0.5 then improving else if trend_slope ys > 0.5 then deteriorating else stable)"
    by (simp add: analyzeAQITrend_long [OF assms] ys)
  have vol: "volatility (analyzeAQITrend historical) = fsqrt (trend_variance ys)"
    by (simp add: analyzeAQITrend_long [OF assms] ys)
  have avg: "averageAQI (analyzeAQITrend historical) = trend_averageAQI ys"
    by (simp add: analyzeAQITrend_long [OF assms] ys)
  have const: "\<bar>c\<bar> \<le> 2 ^ 40 \<and> (\<forall>i<length ys. ys ! i = real_of_int c) \<longrightarrow>
               trend (analyzeAQITrend historical) = stable \<and>
               volatility (analyzeAQITrend historical) = 0"
  proof
    assume a: "\<bar>c\<bar> \<le> 2 ^ 40 \<and> (\<forall>i<length ys. ys ! i = real_of_int c)"
    then have "ys = replicate (length ys) (real_of_int c)"
      by (simp add: list_eq_iff_nth_eq)
    with trend_const [OF _ n2 n6, of c] a
    have "trend_slope ys = 0 \<and> trend_variance ys = 0" by simp
    then show "trend (analyzeAQITrend historical) = stable \<and>
          volatility (analyzeAQITrend historical) = 0"
      by (simp add: tr vol fsqrt_def rnd_zero)
  qed
  show ?thesis
    unfolding Let_def ys_def [symmetric]
    using len slope_denominator(2) [OF n2 n6] trend_variance_nonneg [of ys] const
    by (simp only: tr vol avg slope_eq var_eq avg_eq simp_thms)
qed

text \<open>
  The theorem at the rising history 10, 20, at the history of the doubles 0.8 and 0.3,
  whose double slope -0.5000000000000001 is below -0.5, and at the constant history 7, 7, 7.
\<close>

theorem trend_regression_witness:
  "analyzeAQITrend [\<lparr>aqi = 10\<rparr>, \<lparr>aqi = 20\<rparr>] =
     \<lparr>trend = deteriorating, volatility = 5, averageAQI = 15\<rparr> \<and>
   trend (analyzeAQITrend [\<lparr>aqi = rnd 0.8\<rparr>, \<lparr>aqi = rnd 0.3\<rparr>]) = improving \<and>
   analyzeAQITrend [\<lparr>aqi = 7\<rparr>, \<lparr>aqi = 7\<rparr>, \<lparr>aqi = 7\<rparr>] =
     \<lparr>trend = stable, volatility = 0, averageAQI = 7\<rparr>"
proof -
  have a: "analyzeAQITrend [\<lparr>aqi = 10\<rparr>, \<lparr>aqi = 20\<rparr>] =
     \<lparr>trend = deteriorating, volatility = 5, averageAQI = 15\<rparr>"
    using trend_regression [of "[\<lparr>aqi = 10\<rparr>, \<lparr>aqi = 20\<rparr>]" 0]
    by (intro TrendSummary.equality)
       (simp_all add: Let_def lessThan_small power2_eq_square dbl_ops dbl_int)
  have c: "analyzeAQITrend [\<lparr>aqi = 7\<rparr>, \<lparr>aqi = 7\<rparr>, \<lparr>aqi = 7\<rparr>] =
     \<lparr>trend = stable, volatility = 0, averageAQI = 7\<rparr>"
    using trend_regression [of "[\<lparr>aqi = 7\<rparr>, \<lparr>aqi = 7\<rparr>, \<lparr>aqi = 7\<rparr>]" 7]
    by (intro TrendSummary.equality)
       (simp_all add: Let_def lessThan_small power2_eq_square dbl_ops dbl_int)
  have b: "trend (analyzeAQITrend [\<lparr>aqi = rnd 0.8\<rparr>, \<lparr>aqi = rnd 0.3\<rparr>]) = improving"
    using trend_regression [of "[\<lparr>aqi = rnd 0.8\<rparr>, \<lparr>aqi = rnd 0.3\<rparr>]" 0]
    by (simp add: Let_def lessThan_small power2_eq_square dbl_ops dbl_int ev)
  from a b c show ?thesis by simp
qed

text \<open>
  C5 as written fails at the constant history of three readings of the double 0.1: their
  double sum is 0.30000000000000004 and their mean 0.10000000000000002, so every
  deviation is \<open>- 1 / 2 ^ 56\<close> and the volatility is \<open>1 / 2 ^ 56\<close>, not 0.
\<close>

theorem trend_constant_counterexample:
  "averageAQI (analyzeAQITrend [\<lparr>aqi = rnd 0.1\<rparr>, \<lparr>aqi = rnd 0.1\<rparr>, \<lparr>aqi = rnd 0.1\<rparr>]) \<noteq> rnd 0.1 \<and>
   volatility (analyzeAQITrend [\<lparr>aqi = rnd 0.1\<rparr>, \<lparr>aqi = rnd 0.1\<rparr>, \<lparr>aqi = rnd 0.1\<rparr>]) = 1 / 2 ^ 56 \<and>
   volatility (analyzeAQITrend [\<lparr>aqi = rnd 0.1\<rparr>, \<lparr>aqi = rnd 0.1\<rparr>, \<lparr>aqi = rnd 0.1\<rparr>]) \<noteq> 0"
  by (simp add: trend_eval dbl_ops dbl_int ev power2_eq_square)

section \<open>Properties of the forecast generator\<close>

text \<open>
  C6. When the primary history or the weather forecast is empty, the generator returns
  the empty list. The model has no error value because the source returns before it
  reads any element.
\<close>

theorem forecast_empty_input:
  "currentAQI = [] \<or> weatherForecast = [] \<Longrightarrow>
     generatePredictiveForecast currentAQI weatherForecast regionalData = []"
  by (auto simp add: generatePredictiveForecast_def)

text \<open>
  The theorem once with an empty history and once with an empty weather forecast.
\<close>

theorem forecast_empty_input_witness:
  "generatePredictiveForecast []
     [\<lparr>hour = 0, temperature = 20, humidity = 50, windSpeed = 10, pressure = 1015\<rparr>] None = [] \<and>
   generatePredictiveForecast [\<lparr>aqi = 40\<rparr>, \<lparr>aqi = 42\<rparr>] [] (Some [\<lparr>aqi = 60\<rparr>]) = []"
  using forecast_empty_input
      [of "[]" "[\<lparr>hour = 0, temperature = 20, humidity = 50, windSpeed = 10, pressure = 1015\<rparr>]" None]
    forecast_empty_input [of "[\<lparr>aqi = 40\<rparr>, \<lparr>aqi = 42\<rparr>]" "[]" "Some [\<lparr>aqi = 60\<rparr>]"]
  by simp

text \<open>
  C8. For a non-empty history and a non-empty weather forecast the generator returns one
  point per weather point, in the same order: the point at step \<open>i\<close> carries the hour
  of the \<open>i\<close>-th weather point, and its status is the classifier's answer on its own
  predicted value.
\<close>

theorem forecast_points_follow_weather:
  assumes "currentAQI \<noteq> []" and "weatherForecast \<noteq> []"
  shows "length (generatePredictiveForecast currentAQI weatherForecast regionalData) = length weatherForecast \<and>
    (\<forall>i < length weatherForecast.
       fc_hour (generatePredictiveForecast currentAQI weatherForecast regionalData ! i) = hour (weatherForecast ! i) \<and>
       fc_status (generatePredictiveForecast currentAQI weatherForecast regionalData ! i) =
         getAQIStatus (fc_aqi (generatePredictiveForecast currentAQI weatherForecast regionalData ! i)))"
  using assms
  by (simp add: length_generatePredictiveForecast nth_generatePredictiveForecast forecast_point_def Let_def)

text \<open>
  The theorem at a forecast of two weather points.
\<close>

theorem forecast_points_follow_weather_witness:
  "length (generatePredictiveForecast [\<lparr>aqi = 100\<rparr>]
       [\<lparr>hour = 22, temperature = 20, humidity = 50, windSpeed = 10, pressure = 1015\<rparr>,
        \<lparr>hour = 23, temperature = 30, humidity = 80, windSpeed = 2, pressure = 1000\<rparr>] None) = 2 \<and>
   fc_hour (generatePredictiveForecast [\<lparr>aqi = 100\<rparr>]
       [\<lparr>hour = 22, temperature = 20, humidity = 50, windSpeed = 10, pressure = 1015\<rparr>,
        \<lparr>hour = 23, temperature = 30, humidity = 80, windSpeed = 2, pressure = 1000\<rparr>] None ! 1) = 23 \<and>
   fc_status (generatePredictiveForecast [\<lparr>aqi = 100\<rparr>]
       [\<lparr>hour = 22, temperature = 20, humidity = 50, windSpeed = 10, pressure = 1015\<rparr>,
        \<lparr>hour = 23, temperature = 30, humidity = 80, windSpeed = 2, pressure = 1000\<rparr>] None ! 1) =
     getAQIStatus (fc_aqi (generatePredictiveForecast [\<lparr>aqi = 100\<rparr>]
       [\<lparr>hour = 22, temperature = 20, humidity = 50, windSpeed = 10, pressure = 1015\<rparr>,
        \<lparr>hour = 23, temperature = 30, humidity = 80, windSpeed = 2, pressure = 1000\<rparr>] None ! 1))"
  using forecast_points_follow_weather [of "[\<lparr>aqi = 100\<rparr>]"
       "[\<lparr>hour = 22, temperature = 20, humidity = 50, windSpeed = 10, pressure = 1015\<rparr>,
        \<lparr>hour = 23, temperature = 30, humidity = 80, windSpeed = 2, pressure = 1000\<rparr>]" None]
  by simp

text \<open>
  C1. For a non-empty history and a non-empty weather forecast, the predicted value at
  step \<open>i\<close> is \<open>round (max 0 (base * trendModifier ^ (i + 1) * totalMultiplier))\<close>,
  every operation being the double-precision one of the source, in the source's order:
  \<open>base\<close> is the average of the primary summary, blended with the weights 0.7 and 0.3 with
  the average of the secondary summary when a secondary history is given;
  \<open>trendModifier\<close> is 0.95, 1.05 or 1.0 for an improving, deteriorating or stable
  primary trend; \<open>totalMultiplier\<close> is that of the step's weather point. The source
  rounds first and clamps at zero afterwards, which gives the same number.
\<close>

theorem forecast_aqi_formula:
  assumes "currentAQI \<noteq> []" and "weatherForecast \<noteq> []" and "i < length weatherForecast"
  shows "fc_aqi (generatePredictiveForecast currentAQI weatherForecast regionalData ! i) =
     js_round (max 0
       (fmul (fmul
          (case regionalData of
             None \<Rightarrow> averageAQI (analyzeAQITrend currentAQI)
           | Some secondary \<Rightarrow>
               fadd (fmul (averageAQI (analyzeAQITrend currentAQI)) (rnd 0.7))
                    (fmul (averageAQI (analyzeAQITrend secondary)) (rnd 0.3)))
          (js_pow (case trend (analyzeAQITrend currentAQI) of
                     improving \<Rightarrow> rnd 0.95 | deteriorating \<Rightarrow> rnd 1.05 | stable \<Rightarrow> 1.0) (i + 1)))
          (totalMultiplier (calculateWeatherImpact (weatherForecast ! i)))))"
proof -
  have base: "forecast_baseAQI (analyzeAQITrend currentAQI) (map_option analyzeAQITrend regionalData) =
     (case regionalData of
             None \<Rightarrow> averageAQI (analyzeAQITrend currentAQI)
           | Some secondary \<Rightarrow>
               fadd (fmul (averageAQI (analyzeAQITrend currentAQI)) (rnd 0.7))
                    (fmul (averageAQI (analyzeAQITrend secondary)) (rnd 0.3)))"
  proof (cases regionalData)
    case None
    then show ?thesis by (simp add: forecast_baseAQI_def)
  next
    case (Some secondary)
    then show ?thesis by (simp only: option.map option.case forecast_baseAQI_blend)
  qed
  have tm: "forecast_trendModifier (analyzeAQITrend currentAQI) =
     (case trend (analyzeAQITrend currentAQI) of
        improving \<Rightarrow> rnd 0.95 | deteriorating \<Rightarrow> rnd 1.05 | stable \<Rightarrow> 1.0)"
    by (cases "trend (analyzeAQITrend currentAQI)") (simp_all add: forecast_trendModifier_def)
  have "fc_aqi (generatePredictiveForecast currentAQI weatherForecast regionalData ! i) =
     max 0 (js_round (fmul (fmul
        (forecast_baseAQI (analyzeAQITrend currentAQI) (map_option analyzeAQITrend regionalData))
        (js_pow (forecast_trendModifier (analyzeAQITrend currentAQI)) (i + 1)))
        (totalMultiplier (calculateWeatherImpact (weatherForecast ! i)))))"
    using assms by (simp add: nth_generatePredictiveForecast forecast_point_def Let_def)
  then show ?thesis
    by (simp only: max_zero_js_round base tm)
qed

text \<open>
  The theorem under neutral weather at three inputs: the primary reading 58 with the
  secondary reading 33, where the blended double 50.49999999999999 rounds to 50; the
  history 40, 42, 45, 48, 50, 55 without a secondary history; and the reading 10 with wind
  speed 0 and pressure 1030, where 10.499999999999998 rounds to 10.
\<close>

theorem forecast_aqi_formula_witness:
  "fc_aqi (generatePredictiveForecast [\<lparr>aqi = 58\<rparr>]
       [\<lparr>hour = 0, temperature = 20, humidity = 50, windSpeed = 10, pressure = 1015\<rparr>]
       (Some [\<lparr>aqi = 33\<rparr>]) ! 0) = 50 \<and>
   fc_aqi (generatePredictiveForecast
       [\<lparr>aqi = 40\<rparr>, \<lparr>aqi = 42\<rparr>, \<lparr>aqi = 45\<rparr>, \<lparr>aqi = 48\<rparr>, \<lparr>aqi = 50\<rparr>, \<lparr>aqi = 55\<rparr>]
       [\<lparr>hour = 0, temperature = 20, humidity = 50, windSpeed = 10, pressure = 1015\<rparr>]
       None ! 0) = 49 \<and>
   fc_aqi (generatePredictiveForecast [\<lparr>aqi = 10\<rparr>]
       [\<lparr>hour = 0, temperature = 20, humidity = 50, windSpeed = 0, pressure = 1030\<rparr>]
       None ! 0) = 10"
proof -
  have a: "fc_aqi (generatePredictiveForecast [\<lparr>aqi = 58\<rparr>]
       [\<lparr>hour = 0, temperature = 20, humidity = 50, windSpeed = 10, pressure = 1015\<rparr>]
       (Some [\<lparr>aqi = 33\<rparr>]) ! 0) = 50"
    using forecast_aqi_formula [of "[\<lparr>aqi = 58\<rparr>]"
       "[\<lparr>hour = 0, temperature = 20, humidity = 50, windSpeed = 10, pressure = 1015\<rparr>]" 0
       "Some [\<lparr>aqi = 33\<rparr>]"]
    by (simp add: trend_eval forecast_eval dbl_ops dbl_int ev)
  have b: "fc_aqi (generatePredictiveForecast
       [\<lparr>aqi = 40\<rparr>, \<lparr>aqi = 42\<rparr>, \<lparr>aqi = 45\<rparr>, \<lparr>aqi = 48\<rparr>, \<lparr>aqi = 50\<rparr>, \<lparr>aqi = 55\<rparr>]
       [\<lparr>hour = 0, temperature = 20, humidity = 50, windSpeed = 10, pressure = 1015\<rparr>]
       None ! 0) = 49"
    using forecast_aqi_formula
      [of "[\<lparr>aqi = 40\<rparr>, \<lparr>aqi = 42\<rparr>, \<lparr>aqi = 45\<rparr>, \<lparr>aqi = 48\<rparr>, \<lparr>aqi = 50\<rparr>, \<lparr>aqi = 55\<rparr>]"
          "[\<lparr>hour = 0, temperature = 20, humidity = 50, windSpeed = 10, pressure = 1015\<rparr>]" 0 None]
    by (simp add: trend_eval forecast_eval dbl_ops dbl_int ev)
  have c: "fc_aqi (generatePredictiveForecast [\<lparr>aqi = 10\<rparr>]
       [\<lparr>hour = 0, temperature = 20, humidity = 50, windSpeed = 0, pressure = 1030\<rparr>]
       None ! 0) = 10"
    using forecast_aqi_formula [of "[\<lparr>aqi = 10\<rparr>]"
       "[\<lparr>hour = 0, temperature = 20, humidity = 50, windSpeed = 0, pressure = 1030\<rparr>]" 0 None]
    by (simp add: trend_eval forecast_eval dbl_ops dbl_int ev)
  from a b c show ?thesis by simp
qed

text \<open>
  C2. For a non-empty history and a non-empty weather forecast, the confidence at step
  \<open>i\<close> is \<open>1 - volatility / 100 - i * 0.05\<close> clamped to [0.3, 0.95] and rounded to
  two decimals by \<^verbatim>\<open>Math.round(c * 100) / 100\<close>, every operation being the
  double-precision one of the source and the volatility that of the primary summary. It
  lies between the doubles 0.3 and 0.95, and no later step of the same forecast has a
  larger confidence.
\<close>

theorem forecast_confidence_formula:
  assumes "currentAQI \<noteq> []" and "weatherForecast \<noteq> []" and "i < length weatherForecast"
  shows "fc_confidence (generatePredictiveForecast currentAQI weatherForecast regionalData ! i) =
           fdiv (js_round (fmul
             (max (rnd 0.3) (min (rnd 0.95)
                (fsub (fsub 1 (fdiv (volatility (analyzeAQITrend currentAQI)) 100))
                      (fmul (real i) (rnd 0.05)))))
             100)) 100 \<and>
         rnd 0.3 \<le> fc_confidence (generatePredictiveForecast currentAQI weatherForecast regionalData ! i) \<and>
         fc_confidence (generatePredictiveForecast currentAQI weatherForecast regionalData ! i) \<le> rnd 0.95 \<and>
         (\<forall>j. i \<le> j \<and> j < length weatherForecast \<longrightarrow>
            fc_confidence (generatePredictiveForecast currentAQI weatherForecast regionalData ! j)
            \<le> fc_confidence (generatePredictiveForecast currentAQI weatherForecast regionalData ! i))"
proof -
  have nth: "fc_confidence (generatePredictiveForecast currentAQI weatherForecast regionalData ! k) =
             forecast_confidence (volatility (analyzeAQITrend currentAQI)) k"
    if "k < length weatherForecast" for k
    using assms(1) that by (simp add: nth_generatePredictiveForecast forecast_point_def Let_def)
  have formula: "forecast_confidence (volatility (analyzeAQITrend currentAQI)) i =
           fdiv (js_round (fmul
             (max (rnd 0.3) (min (rnd 0.95)
                (fsub (fsub 1 (fdiv (volatility (analyzeAQITrend currentAQI)) 100))
                      (fmul (real i) (rnd 0.05)))))
             100)) 100"
    by (simp only: forecast_confidence_def Let_def)
  have mono: "fc_confidence (generatePredictiveForecast currentAQI weatherForecast regionalData ! j)
            \<le> fc_confidence (generatePredictiveForecast currentAQI weatherForecast regionalData ! i)"
    if "i \<le> j" and "j < length weatherForecast" for j
    using that assms(3) by (simp only: nth forecast_confidence_antimono)
  show ?thesis
    using forecast_confidence_bounds [of "volatility (analyzeAQITrend currentAQI)" i] mono
    by (simp only: nth [OF assms(3)] formula [symmetric]) blast
qed

text \<open>
  The theorem at the history 40, 125, whose volatility is 42.5, and two weather points:
  at step 0 the clamped value is the double 0.575, whose product with 100 is
  57.49999999999999, so the confidence is 0.57; at step 1 it is 0.52.
\<close>

theorem forecast_confidence_formula_witness:
  "fc_confidence (generatePredictiveForecast [\<lparr>aqi = 40\<rparr>, \<lparr>aqi = 125\<rparr>]
       [\<lparr>hour = 9, temperature = 20, humidity = 50, windSpeed = 10, pressure = 1015\<rparr>,
        \<lparr>hour = 10, temperature = 20, humidity = 50, windSpeed = 10, pressure = 1015\<rparr>]
       None ! 0) = rnd 0.57 \<and>
   fc_confidence (generatePredictiveForecast [\<lparr>aqi = 40\<rparr>, \<lparr>aqi = 125\<rparr>]
       [\<lparr>hour = 9, temperature = 20, humidity = 50, windSpeed = 10, pressure = 1015\<rparr>,
        \<lparr>hour = 10, temperature = 20, humidity = 50, windSpeed = 10, pressure = 1015\<rparr>]
       None ! 1)
   \<le> fc_confidence (generatePredictiveForecast [\<lparr>aqi = 40\<rparr>, \<lparr>aqi = 125\<rparr>]
       [\<lparr>hour = 9, temperature = 20, humidity = 50, windSpeed = 10, pressure = 1015\<rparr>,
        \<lparr>hour = 10, temperature = 20, humidity = 50, windSpeed = 10, pressure = 1015\<rparr>]
       None ! 0)"
proof -
  let ?h = "[\<lparr>aqi = 40\<rparr>, \<lparr>aqi = 125\<rparr>]"
  let ?w = "[\<lparr>hour = 9, temperature = 20, humidity = 50, windSpeed = 10, pressure = 1015\<rparr>,
        \<lparr>hour = 10, temperature = 20, humidity = 50, windSpeed = 10, pressure = 1015\<rparr>]"
  have h1: "?h \<noteq> []" and h2: "?w \<noteq> []" and h3: "0 < length ?w" by simp_all
  note t = forecast_confidence_formula [OF h1 h2 h3, of None]
  have vol: "volatility (analyzeAQITrend ?h) = 85 / 2"
    by (simp add: trend_eval dbl_ops dbl_int ev power2_eq_square)
  from t have "fc_confidence (generatePredictiveForecast ?h ?w None ! 0) =
      fdiv (js_round (fmul
             (max (rnd 0.3) (min (rnd 0.95)
                (fsub (fsub 1 (fdiv (volatility (analyzeAQITrend ?h)) 100))
                      (fmul (real 0) (rnd 0.05)))))
             100)) 100"
    by (rule conjunct1)
  then have a: "fc_confidence (generatePredictiveForecast ?h ?w None ! 0) = rnd 0.57"
    by (simp add: vol js_round_def dbl_ops dbl_int ev)
  from t have "\<forall>j. 0 \<le> j \<and> j < length ?w \<longrightarrow>
      fc_confidence (generatePredictiveForecast ?h ?w None ! j)
      \<le> fc_confidence (generatePredictiveForecast ?h ?w None ! 0)"
    by (elim conjE)
  then have "0 \<le> (1::nat) \<and> 1 < length ?w \<longrightarrow>
      fc_confidence (generatePredictiveForecast ?h ?w None ! 1)
      \<le> fc_confidence (generatePredictiveForecast ?h ?w None ! 0)"
    by (rule spec)
  then have b: "fc_confidence (generatePredictiveForecast ?h ?w None ! 1)
      \<le> fc_confidence (generatePredictiveForecast ?h ?w None ! 0)"
    by simp
  from a b show ?thesis by (rule conjI)
qed

text \<open>
  C10. A secondary history that is given but empty is still blended: its summary is
  stable with volatility 0 and average 50, so the base value of every step is
  \<open>primaryAverage * 0.7 + 50 * 0.3\<close> in double arithmetic, and the predicted value is
  computed from it.
\<close>

theorem forecast_empty_secondary_blends:
  assumes "currentAQI \<noteq> []" and "weatherForecast \<noteq> []" and "i < length weatherForecast"
  shows "analyzeAQITrend [] = \<lparr>trend = stable, volatility = 0, averageAQI = 50\<rparr> \<and>
     forecast_baseAQI (analyzeAQITrend currentAQI) (Some (analyzeAQITrend [])) =
       fadd (fmul (averageAQI (analyzeAQITrend currentAQI)) (rnd 0.7)) (fmul 50 (rnd 0.3)) \<and>
     fc_aqi (generatePredictiveForecast currentAQI weatherForecast (Some []) ! i) =
       max 0 (js_round (fmul (fmul
          (fadd (fmul (averageAQI (analyzeAQITrend currentAQI)) (rnd 0.7)) (fmul 50 (rnd 0.3)))
          (js_pow (forecast_trendModifier (analyzeAQITrend currentAQI)) (i + 1)))
          (totalMultiplier (calculateWeatherImpact (weatherForecast ! i)))))"
proof -
  have e: "analyzeAQITrend [] = \<lparr>trend = stable, volatility = 0, averageAQI = 50\<rparr>"
    by (simp add: analyzeAQITrend_def)
  have b: "forecast_baseAQI (analyzeAQITrend currentAQI) (Some (analyzeAQITrend [])) =
       fadd (fmul (averageAQI (analyzeAQITrend currentAQI)) (rnd 0.7)) (fmul 50 (rnd 0.3))"
    by (simp add: forecast_baseAQI_blend e)
  have "fc_aqi (generatePredictiveForecast currentAQI weatherForecast (Some []) ! i) =
       max 0 (js_round (fmul (fmul
          (forecast_baseAQI (analyzeAQITrend currentAQI) (Some (analyzeAQITrend [])))
          (js_pow (forecast_trendModifier (analyzeAQITrend currentAQI)) (i + 1)))
          (totalMultiplier (calculateWeatherImpact (weatherForecast ! i)))))"
    using assms by (simp add: nth_generatePredictiveForecast forecast_point_def Let_def)
  with e b show ?thesis by (simp only: simp_thms)
qed

text \<open>
  The theorem under neutral weather at the single reading 100, where the base is 85 and
  not 100, and at the single reading 325, where the base is the double
  242.49999999999997 and the predicted value 242.
\<close>

theorem forecast_empty_secondary_blends_witness:
  "fc_aqi (generatePredictiveForecast [\<lparr>aqi = 100\<rparr>]
       [\<lparr>hour = 0, temperature = 20, humidity = 50, windSpeed = 10, pressure = 1015\<rparr>]
       (Some []) ! 0) = 85 \<and>
   fc_aqi (generatePredictiveForecast [\<lparr>aqi = 325\<rparr>]
       [\<lparr>hour = 0, temperature = 20, humidity = 50, windSpeed = 10, pressure = 1015\<rparr>]
       (Some []) ! 0) = 242"
proof -
  have a: "fc_aqi (generatePredictiveForecast [\<lparr>aqi = 100\<rparr>]
       [\<lparr>hour = 0, temperature = 20, humidity = 50, windSpeed = 10, pressure = 1015\<rparr>]
       (Some []) ! 0) = 85"
    using forecast_empty_secondary_blends [of "[\<lparr>aqi = 100\<rparr>]"
       "[\<lparr>hour = 0, temperature = 20, humidity = 50, windSpeed = 10, pressure = 1015\<rparr>]" 0]
    by (simp add: trend_eval forecast_eval dbl_ops dbl_int ev)
  have b: "fc_aqi (generatePredictiveForecast [\<lparr>aqi = 325\<rparr>]
       [\<lparr>hour = 0, temperature = 20, humidity = 50, windSpeed = 10, pressure = 1015\<rparr>]
       (Some []) ! 0) = 242"
    using forecast_empty_secondary_blends [of "[\<lparr>aqi = 325\<rparr>]"
       "[\<lparr>hour = 0, temperature = 20, humidity = 50, windSpeed = 10, pressure = 1015\<rparr>]" 0]
    by (simp add: trend_eval forecast_eval dbl_ops dbl_int ev)
  from a b show ?thesis by (rule conjI)
qed

section \<open>Properties of the distance\<close>

text \<open>The Taylor polynomial of the cosine with its remainder, as the library has it for the sine.\<close>

lemma Maclaurin_cos_bound: "\<bar>cos x - (\<Sum>m<n. cos_coeff m * x ^ m)\<bar> \<le> inverse (fact n) * \<bar>x\<bar> ^ n"
proof -
  obtain t where c: "cos x = (\<Sum>m<n. cos_coeff m * x ^ m) + (cos (t + 1 / 2 * real n * pi) / fact n) * x ^ n"
    using Maclaurin_cos_expansion [of x n] by blast
  define u where "u = cos (t + 1 / 2 * real n * pi)"
  define S where "S = (\<Sum>m<n. cos_coeff m * x ^ m)"
  have ub: "\<bar>u\<bar> \<le> 1" by (simp add: u_def)
  have e0: "0 \<le> inverse (fact n) * \<bar>x\<bar> ^ n" by simp
  have "cos x - S = cos (t + 1 / 2 * real n * pi) / fact n * x ^ n"
    unfolding S_def using c by linarith
  then have "cos x - S = u * (inverse (fact n) * x ^ n)"
    by (simp only: u_def divide_inverse mult.assoc)
  then have "\<bar>cos x - S\<bar> = \<bar>u\<bar> * (inverse (fact n) * \<bar>x\<bar> ^ n)"
    by (simp add: abs_mult power_abs)
  also have "\<dots> \<le> 1 * (inverse (fact n) * \<bar>x\<bar> ^ n)"
    using ub e0 by (rule mult_right_mono)
  finally show ?thesis by (simp add: S_def)
qed

text \<open>
  The roundings met by the distance between the sensor at (4.607211, 101.090918) and its
  antipode. A sine or cosine is enclosed between two rationals by its Taylor polynomial
  and remainder, and both ends round to the same double.
\<close>

lemma cos_poly_10:
  "(\<Sum>m<10. cos_coeff m * x ^ m) = 1 - x ^ 2 / 2 + x ^ 4 / 24 - x ^ 6 / 720 + x ^ 8 / 40320"
  by (simp add: cos_coeff_def lessThan_nat_numeral lessThan_Suc fact_numeral)

lemma sin_poly_10:
  "(\<Sum>m<10. sin_coeff m * x ^ m) = x - x ^ 3 / 6 + x ^ 5 / 120 - x ^ 7 / 5040 + x ^ 9 / 362880"
  by (simp add: sin_coeff_def lessThan_nat_numeral lessThan_Suc fact_numeral)

lemma sin_poly_22:
  "(\<Sum>m<22. sin_coeff m * x ^ m) = x - x ^ 3 / 6 + x ^ 5 / 120 - x ^ 7 / 5040 + x ^ 9 / 362880 - x ^ 11 / 39916800 + x ^ 13 / 6227020800 - x ^ 15 / 1307674368000 + x ^ 17 / 355687428096000 - x ^ 19 / 121645100408832000 + x ^ 21 / 51090942171709440000"
  by (simp add: sin_coeff_def lessThan_nat_numeral lessThan_Suc fact_numeral)

lemma evd_1: "rnd (4607211 / 1000000) = 5187258435704313 / 1125899906842624"
  by (subst rnd_eval [of "- 50"]) (simp_all add: rhe_def Let_def power_int_minus)

lemma evd_2: "rnd (39454541 / 500000) = 5552733004552311 / 70368744177664"
  by (subst rnd_eval [of "- 46"]) (simp_all add: rhe_def Let_def power_int_minus)

lemma evd_3: "rnd (50545459 / 500000) = 7113640947427209 / 70368744177664"
  by (subst rnd_eval [of "- 46"]) (simp_all add: rhe_def Let_def power_int_minus)

lemma evd_4: "rnd (5187258435704313 / 562949953421312) = 5187258435704313 / 562949953421312"
  by (subst rnd_eval [of "- 49"]) (simp_all add: rhe_def Let_def power_int_minus)

lemma evd_5: "rnd (4586987431923430170466975832715 / 158456325028528675187087900672) = 509257906058761 / 17592186044416"
  by (subst rnd_eval [of "- 48"]) (simp_all add: rhe_def Let_def power_int_minus)

lemma evd_6: "rnd (509257906058761 / 3166593487994880) = 2897111643356507 / 18014398509481984"
  by (subst rnd_eval [of "- 55"]) (simp_all add: rhe_def Let_def power_int_minus)

lemma evd_7: "rnd (39792587355159975 / 70368744177664) = 4974073419394997 / 8796093022208"
  by (subst rnd_eval [of "- 43"]) (simp_all add: rhe_def Let_def power_int_minus)

lemma evd_8: "rnd (4974073419394997 / 1583296743997440) = 884279719003555 / 281474976710656"
  by (subst rnd_eval [of "- 51"]) (simp_all add: rhe_def Let_def power_int_minus)

lemma evd_9: "rnd (2897111643356507 / 36028797018963968) = 2897111643356507 / 36028797018963968"
  by (subst rnd_eval [of "- 56"]) (simp_all add: rhe_def Let_def power_int_minus)

lemma evd_10: "rnd (884279719003555 / 562949953421312) = 884279719003555 / 562949953421312"
  by (subst rnd_eval [of "- 52"]) (simp_all add: rhe_def Let_def power_int_minus)

lemma evd_11: "rnd (4586987431923430170466975832715 / 316912650057057350374175801344) = 509257906058761 / 35184372088832"
  by (subst rnd_eval [of "- 49"]) (simp_all add: rhe_def Let_def power_int_minus)

lemma evd_12: "rnd (509257906058761 / 6333186975989760) = 2897111643356507 / 36028797018963968"
  by (subst rnd_eval [of "- 56"]) (simp_all add: rhe_def Let_def power_int_minus)

lemma evd_13: "rnd (8375181396871831602177628909161 / 1298074214633706907132624082305024) = 7438655377775511 / 1152921504606846976"
  by (subst rnd_eval [of "- 60"]) (simp_all add: rhe_def Let_def power_int_minus)

lemma evd_14: "rnd (78716982009084179999730967225 / 79228162514264337593543950336) = 4474542379801061 / 4503599627370496"
  by (subst rnd_eval [of "- 53"]) (simp_all add: rhe_def Let_def power_int_minus)

lemma evd_15: "rnd (4474542379801061 / 4503599627370496) = 4474542379801061 / 4503599627370496"
  by (subst rnd_eval [of "- 53"]) (simp_all add: rhe_def Let_def power_int_minus)

lemma evd_16: "rnd (1152921504606847127 / 1152921504606846976) = 4503599627370497 / 4503599627370496"
  by (subst rnd_eval [of "- 52"]) (simp_all add: rhe_def Let_def power_int_minus)

lemma evd_17: "rnd (1 / 4503599627370496) = 1 / 4503599627370496"
  by (subst rnd_eval [of "- 104"]) (simp_all add: rhe_def Let_def power_int_minus)

lemma tr_sin_1: "rnd (sin (2897111643356507 / 36028797018963968)) = 2893990566133869 / 36028797018963968"
proof (rule rnd_sandwich)
  have b: "\<bar>sin (2897111643356507 / 36028797018963968) - (\<Sum>m<10. sin_coeff m * (2897111643356507 / 36028797018963968) ^ m)\<bar> \<le> inverse (fact 10) * \<bar>2897111643356507 / 36028797018963968\<bar> ^ 10"
    by (rule Maclaurin_sin_bound)
  have l: "49718379345909967825305185 / 618970019642690137449562112 \<le> (\<Sum>m<10. sin_coeff m * (2897111643356507 / 36028797018963968) ^ m) - inverse (fact 10) * \<bar>2897111643356507 / 36028797018963968\<bar> ^ 10"
    by (subst sin_poly_10) (simp add: fact_numeral power_divide)
  from b l show "49718379345909967825305185 / 618970019642690137449562112 \<le> (sin (2897111643356507 / 36028797018963968) :: real)" by linarith
  have u: "(\<Sum>m<10. sin_coeff m * (2897111643356507 / 36028797018963968) ^ m) + inverse (fact 10) * \<bar>2897111643356507 / 36028797018963968\<bar> ^ 10 \<le> 99436758691819943361798039 / 1237940039285380274899124224"
    by (subst sin_poly_10) (simp add: fact_numeral power_divide)
  from b u show "(sin (2897111643356507 / 36028797018963968) :: real) \<le> 99436758691819943361798039 / 1237940039285380274899124224" by linarith
  show "rnd (49718379345909967825305185 / 618970019642690137449562112) = 2893990566133869 / 36028797018963968"
    by (subst rnd_eval [of "- 56"]) (simp_all add: rhe_def Let_def power_int_minus)
  show "rnd (99436758691819943361798039 / 1237940039285380274899124224) = 2893990566133869 / 36028797018963968"
    by (subst rnd_eval [of "- 56"]) (simp_all add: rhe_def Let_def power_int_minus)
qed

lemma tr_sin_2: "rnd (sin (884279719003555 / 562949953421312)) = 1"
proof (rule rnd_sandwich)
  have b: "\<bar>sin (884279719003555 / 562949953421312) - (\<Sum>m<22. sin_coeff m * (884279719003555 / 562949953421312) ^ m)\<bar> \<le> inverse (fact 22) * \<bar>884279719003555 / 562949953421312\<bar> ^ 22"
    by (rule Maclaurin_sin_bound)
  have l: "309485009821345063429134969 / 309485009821345068724781056 \<le> (\<Sum>m<22. sin_coeff m * (884279719003555 / 562949953421312) ^ m) - inverse (fact 22) * \<bar>884279719003555 / 562949953421312\<bar> ^ 22"
    by (subst sin_poly_22) (simp add: fact_numeral power_divide)
  from b l show "309485009821345063429134969 / 309485009821345068724781056 \<le> (sin (884279719003555 / 562949953421312) :: real)" by linarith
  show "(sin (884279719003555 / 562949953421312) :: real) \<le> 1" by (rule sin_le_one)
  show "rnd (309485009821345063429134969 / 309485009821345068724781056) = 1"
    by (subst rnd_eval [of "- 53"]) (simp_all add: rhe_def Let_def power_int_minus)
  show "rnd 1 = 1" by (simp add: rnd_one)
qed

lemma tr_cos_3: "rnd (cos (2897111643356507 / 36028797018963968)) = 280565468311915 / 281474976710656"
proof (rule rnd_sandwich)
  have b: "\<bar>cos (2897111643356507 / 36028797018963968) - (\<Sum>m<10. cos_coeff m * (2897111643356507 / 36028797018963968) ^ m)\<bar> \<le> inverse (fact 10) * \<bar>2897111643356507 / 36028797018963968\<bar> ^ 10"
    by (rule Maclaurin_cos_bound)
  have l: "616969989522738786120952959 / 618970019642690137449562112 \<le> (\<Sum>m<10. cos_coeff m * (2897111643356507 / 36028797018963968) ^ m) - inverse (fact 10) * \<bar>2897111643356507 / 36028797018963968\<bar> ^ 10"
    by (subst cos_poly_10) (simp add: fact_numeral power_divide)
  from b l show "616969989522738786120952959 / 618970019642690137449562112 \<le> (cos (2897111643356507 / 36028797018963968) :: real)" by linarith
  have u: "(\<Sum>m<10. cos_coeff m * (2897111643356507 / 36028797018963968) ^ m) + inverse (fact 10) * \<bar>2897111643356507 / 36028797018963968\<bar> ^ 10 \<le> 308484994761369394988273397 / 309485009821345068724781056"
    by (subst cos_poly_10) (simp add: fact_numeral power_divide)
  from b u show "(cos (2897111643356507 / 36028797018963968) :: real) \<le> 308484994761369394988273397 / 309485009821345068724781056" by linarith
  show "rnd (616969989522738786120952959 / 618970019642690137449562112) = 280565468311915 / 281474976710656"
    by (subst rnd_eval [of "- 53"]) (simp_all add: rhe_def Let_def power_int_minus)
  show "rnd (308484994761369394988273397 / 309485009821345068724781056) = 280565468311915 / 281474976710656"
    by (subst rnd_eval [of "- 53"]) (simp_all add: rhe_def Let_def power_int_minus)
qed

lemmas ev_distance =
  evd_1 evd_2 evd_3 evd_4 evd_5 evd_6 evd_7 evd_8
  evd_9 evd_10 evd_11 evd_12 evd_13 evd_14 evd_15 evd_16
  evd_17 tr_sin_1 tr_sin_2 tr_cos_3

text \<open>
  What holds of the distance: the result is NaN exactly when the computed \<open>a\<close> leaves
  [0, 1]; the two orders of a pair give the same result; a point is at distance 0 from itself.
\<close>

lemma rnd_neg_iff: "rnd x < 0 \<longleftrightarrow> x < 0"
proof
  assume "rnd x < 0"
  then show "x < 0" using rnd_nonneg [of x] by (cases "0 \<le> x") simp_all
next
  assume "x < 0"
  then have "0 < rnd (- x)" by (intro rnd_pos) simp
  then show "rnd x < 0" by (simp add: rnd_minus)
qed

lemma calculateDistance_None_iff:
  "calculateDistance lat1 lon1 lat2 lon2 = None \<longleftrightarrow>
     haversine_a lat1 lon1 lat2 lon2 < 0 \<or> 1 < haversine_a lat1 lon1 lat2 lon2"
  by (auto simp add: calculateDistance_def Let_def js_sqrt_def fsub_def rnd_neg_iff
        split: option.splits if_splits)

lemma calculateDistance_orders:
  "calculateDistance lat1 lon1 lat2 lon2 = calculateDistance lat2 lon2 lat1 lon1"
  by (simp only: calculateDistance_def haversine_a_sym [of lat1 lon1 lat2 lon2])

lemma calculateDistance_same_point: "calculateDistance lat lon lat lon = Some 0"
  by (simp add: calculateDistance_def Let_def haversine_a_same js_sqrt_def dbl_ops
        js_atan2_def atan2_def dbl_int)

lemma haversine_a_antipode:
  "haversine_a (rnd (- 4.607211)) (rnd (- 78.909082)) (rnd 4.607211) (rnd 101.090918)
     = 4503599627370497 / 4503599627370496"
  by (simp add: haversine_a_def Let_def js_PI_def js_sin_def js_cos_def dbl_ops dbl_int
        rnd_minus ev_distance)

text \<open>
  C9. The distance from a point to itself is 0, and the two orders of a pair compute the
  same value. The claim that the two distances are equal fails where that value is NaN:
  between the sensor at (4.607211, 101.090918) and its antipode the computed \<open>a\<close> is
  1.0000000000000002, the square root of \<open>1 - a\<close> is NaN, and so is the distance in
  both orders; NaN is not equal to itself.
\<close>

theorem calculateDistance_antipode_nan:
  "calculateDistance (rnd (- 4.607211)) (rnd (- 78.909082)) (rnd 4.607211) (rnd 101.090918) = None \<and>
   calculateDistance (rnd 4.607211) (rnd 101.090918) (rnd (- 4.607211)) (rnd (- 78.909082)) = None \<and>
   \<not> js_eq (calculateDistance (rnd (- 4.607211)) (rnd (- 78.909082)) (rnd 4.607211) (rnd 101.090918))
            (calculateDistance (rnd 4.607211) (rnd 101.090918) (rnd (- 4.607211)) (rnd (- 78.909082)))"
proof -
  have a: "calculateDistance (rnd (- 4.607211)) (rnd (- 78.909082)) (rnd 4.607211) (rnd 101.090918) = None"
    by (simp only: calculateDistance_None_iff haversine_a_antipode) simp
  have b: "calculateDistance (rnd 4.607211) (rnd 101.090918) (rnd (- 4.607211)) (rnd (- 78.909082)) = None"
    by (subst calculateDistance_orders) (rule a)
  show ?thesis
    unfolding a b by (simp add: js_eq_def)
qed

section \<open>Properties of the AQI classifier\<close>

text \<open>
  C7. The classifier is defined on every real number and returns the band with
  inclusive upper bounds: at most 50 is Good, above 50 and at most 100 is Moderate,
  above 100 and at most 150 is Unhealthy for Sensitive Groups, above 150 and at most
  200 is Unhealthy, above 200 and at most 300 is Very Unhealthy, above 300 is
  Hazardous. Negative values are Good, and each breakpoint belongs to the lower band
  while the next integer belongs to the upper one.
\<close>

theorem getAQIStatus_bands:
  "(v \<le> 50 \<longrightarrow> getAQIStatus v = ''Good'') \<and>
   (50 < v \<and> v \<le> 100 \<longrightarrow> getAQIStatus v = ''Moderate'') \<and>
   (100 < v \<and> v \<le> 150 \<longrightarrow> getAQIStatus v = ''Unhealthy for Sensitive Groups'') \<and>
   (150 < v \<and> v \<le> 200 \<longrightarrow> getAQIStatus v = ''Unhealthy'') \<and>
   (200 < v \<and> v \<le> 300 \<longrightarrow> getAQIStatus v = ''Very Unhealthy'') \<and>
   (300 < v \<longrightarrow> getAQIStatus v = ''Hazardous'') \<and>
   (v < 0 \<longrightarrow> getAQIStatus v = ''Good'') \<and>
   getAQIStatus 50 = ''Good'' \<and> getAQIStatus 51 = ''Moderate'' \<and>
   getAQIStatus 100 = ''Moderate'' \<and> getAQIStatus 101 = ''Unhealthy for Sensitive Groups'' \<and>
   getAQIStatus 150 = ''Unhealthy for Sensitive Groups'' \<and> getAQIStatus 151 = ''Unhealthy'' \<and>
   getAQIStatus 200 = ''Unhealthy'' \<and> getAQIStatus 201 = ''Very Unhealthy'' \<and>
   getAQIStatus 300 = ''Very Unhealthy'' \<and> getAQIStatus 301 = ''Hazardous''"
  by (simp add: getAQIStatus_def)

theorem getAQIStatus_bands_witness:
  "getAQIStatus 42 = ''Good'' \<and> getAQIStatus 75 = ''Moderate'' \<and>
   getAQIStatus 120 = ''Unhealthy for Sensitive Groups'' \<and> getAQIStatus 180 = ''Unhealthy'' \<and>
   getAQIStatus 250 = ''Very Unhealthy'' \<and> getAQIStatus 400 = ''Hazardous'' \<and>
   getAQIStatus (- 3) = ''Good''"
  using getAQIStatus_bands [of 42] getAQIStatus_bands [of 75] getAQIStatus_bands [of 120]
    getAQIStatus_bands [of 180] getAQIStatus_bands [of 250] getAQIStatus_bands [of 400]
    getAQIStatus_bands [of "- 3"]
  by simp



end
